theory Spec2Isabelle
  imports Complex_Main "HOL-Library.Word"
begin

section \<open>Scalar types and error values\<close>

text \<open>
  The key and unit types of \<^verbatim>\<open>BaseClasses.h\<close>: \<^verbatim>\<open>Cmper = uint16_t\<close> and
  \<^verbatim>\<open>Edu = int32_t\<close> (1024 per quarter note). Signed 32-bit values are words read with
  \<open>sint\<close>; a product of two of them wraps around. Entry numbers are 32-bit keys in which only
  the value 0 ("no entry") is distinguished. \<^verbatim>\<open>LayerIndex\<close> is unsigned and used only for
  comparison and indexing.
\<close>

type_synonym Cmper = "16 word"
type_synonym ClefIndex = "16 word"
type_synonym Edu = "32 word"
type_synonym EntryNumber = "32 word"
type_synonym LayerIndex = nat

text \<open>
  The messages handed to \<^verbatim>\<open>MUSX_INTEGRITY_ERROR\<close>, one constructor for each message of
  the sources that are modelled, carrying the numbers the message prints.
\<close>

datatype violation =
    NextEntryMissing EntryNumber EntryNumber
  | NotIterable Cmper Cmper
  | NonExistentFrame Cmper Cmper Cmper
  | BothClefAndClefList Cmper Cmper
  | NeitherClefNorClefList Cmper Cmper

datatype error = invalid_argument | integrity_error violation

text \<open>
  Modelled from the spec: the macro \<^verbatim>\<open>MUSX_INTEGRITY_ERROR\<close> is used by the sources but
  defined outside them. Following the error-handling design of the specification, a
  consistency violation is appended to the diagnostic sink in the default mode and becomes an
  immediately thrown failure in the strict mode. The sink is the list of violations reported
  so far.
\<close>

definition MUSX_INTEGRITY_ERROR :: "bool \<Rightarrow> violation \<Rightarrow> violation list \<Rightarrow> error + violation list" where
  "MUSX_INTEGRITY_ERROR strict v sink =
     (if strict then Inl (integrity_error v) else Inr (sink @ [v]))"

section \<open>Rational durations\<close>

text \<open>
  Modelled from the spec: the class \<^verbatim>\<open>util::Fraction\<close> is used by the sources but defined
  outside them. The specification describes an exact fraction of two signed integers, reduced
  and comparable, with exact addition, subtraction, multiplication, division and comparison;
  a zero denominator and a division by a zero fraction are invalid-argument errors. Exact
  reduced fractions are the rationals, so the values are of type \<open>rat\<close>; the two operations
  that can fail return a sum.
\<close>

type_synonym Fraction = rat

definition Fraction_ctor :: "int \<Rightarrow> int \<Rightarrow> error + Fraction" where
  "Fraction_ctor num den = (if den = 0 then Inl invalid_argument else Inr (Fract num den))"

definition Fraction_div :: "Fraction \<Rightarrow> Fraction \<Rightarrow> error + Fraction" where
  "Fraction_div a b = (if b = 0 then Inl invalid_argument else Inr (a / b))"

text \<open>
  Modelled from the spec: the enumeration \<^verbatim>\<open>Entry::NoteType\<close> is defined outside the
  sources. With 1024 ticks to the quarter note, \<^verbatim>\<open>NoteType::Whole\<close> is 4096 ticks.
\<close>

definition NoteType_Whole :: int where
  "NoteType_Whole = 4096"

section \<open>Entities\<close>

text \<open>
  Modelled from the spec: the classes \<^verbatim>\<open>Entry\<close>, \<^verbatim>\<open>others::Frame\<close> and
  \<^verbatim>\<open>EntryInfo\<close> are used by \<^verbatim>\<open>Entry::getNext\<close> and
  \<^verbatim>\<open>GFrameHold::iterateEntries\<close> but declared outside the sources. The records hold the
  members that these functions read or write, under the names the sources use for them, with
  the meaning the data model of the specification gives them. The records \<open>TupletDef\<close> and
  \<open>GFrameHold\<close> hold the fields of the classes of the sources that the modelled functions
  read; \<open>cmper1\<close> and \<open>cmper2\<close> are the staff and the measure, the keys kept by the base class.
\<close>

record Entry =
  m_entnum :: EntryNumber
  m_next :: EntryNumber
  m_prev :: EntryNumber
  duration :: Edu
  isNote :: bool

record Frame =
  startEntry :: EntryNumber
  endEntry :: EntryNumber
  startTime :: Edu

record TupletDef =
  displayNumber :: "32 word"
  displayDuration :: Edu
  referenceNumber :: "32 word"
  referenceDuration :: Edu

record GFrameHold =
  partId :: Cmper
  cmper1 :: Cmper
  cmper2 :: Cmper
  clefId :: "ClefIndex option"
  clefListId :: Cmper
  frames :: "Cmper list"

record EntryInfo =
  info_staff :: Cmper
  info_measure :: Cmper
  info_layerIndex :: LayerIndex
  info_entry :: Entry
  elapsedDuration :: Fraction
  actualDuration :: Fraction

text \<open>
  Modelled from the spec: the pools of the document are external collaborators. The entry pool
  resolves an entry number, the others pool returns all incarnations of a frame id for a part,
  and the details pool returns all tuplet definitions keyed to an entry number for a part, in
  document order.
\<close>

record Document =
  getEntries :: "EntryNumber \<rightharpoonup> Entry"
  getArray_Frame :: "Cmper \<Rightarrow> Cmper \<Rightarrow> Frame list"
  getArray_TupletDef :: "Cmper \<Rightarrow> EntryNumber \<Rightarrow> TupletDef list"

text \<open>
  Modelled from the spec: the constant \<^verbatim>\<open>SCORE_PARTID\<close> is defined outside the sources; it
  is the part id of the score, under which the tuplets of an entry are looked up.
\<close>

definition SCORE_PARTID :: Cmper where
  "SCORE_PARTID = 0"

text \<open>
  Modelled from the spec: \<^verbatim>\<open>MAX_LAYERS\<close> is defined outside the sources; a frame holder
  has four layer slots. The constructor of \<^verbatim>\<open>GFrameHold\<close> sizes \<^verbatim>\<open>frames\<close> with it.
\<close>

definition MAX_LAYERS :: nat where
  "MAX_LAYERS = 4"

definition GFrameHold_ctor :: "Cmper \<Rightarrow> Cmper \<Rightarrow> Cmper \<Rightarrow> GFrameHold" where
  "GFrameHold_ctor part inst meas =
     \<lparr>partId = part, cmper1 = inst, cmper2 = meas, clefId = None, clefListId = 0,
      frames = replicate MAX_LAYERS 0\<rparr>"

definition getStaff :: "GFrameHold \<Rightarrow> Cmper" where
  "getStaff g = cmper1 g"

definition getMeasure :: "GFrameHold \<Rightarrow> Cmper" where
  "getMeasure g = cmper2 g"

section \<open>Tuplet definitions\<close>

text \<open>
  \<^verbatim>\<open>TupletDef::calcReferenceDuration\<close>, \<^verbatim>\<open>calcDisplayDuration\<close> and \<^verbatim>\<open>calcRatio\<close>.
  The products are products of 32-bit integers.
\<close>

definition calcReferenceDuration :: "TupletDef \<Rightarrow> error + Fraction" where
  "calcReferenceDuration t =
     Fraction_ctor (sint (referenceNumber t * referenceDuration t)) NoteType_Whole"

definition calcDisplayDuration :: "TupletDef \<Rightarrow> error + Fraction" where
  "calcDisplayDuration t =
     Fraction_ctor (sint (displayNumber t * displayDuration t)) NoteType_Whole"

definition calcRatio :: "TupletDef \<Rightarrow> error + Fraction" where
  "calcRatio t =
     Fraction_ctor (sint (referenceNumber t * referenceDuration t))
                   (sint (displayNumber t * displayDuration t))"

text \<open>
  The expression \<^verbatim>\<open>calcReferenceDuration() / calcDisplayDuration()\<close> that the exactness
  property of the specification compares \<^verbatim>\<open>calcRatio()\<close> with; it does not occur in the
  sources. Both operands are evaluated, then divided; an exception of either operand or of
  the division propagates.
\<close>

definition reference_over_display :: "TupletDef \<Rightarrow> error + Fraction" where
  "reference_over_display t =
     (case calcReferenceDuration t of
        Inl e \<Rightarrow> Inl e
      | Inr r \<Rightarrow> (case calcDisplayDuration t of
                    Inl e \<Rightarrow> Inl e
                  | Inr d \<Rightarrow> Fraction_div r d))"

section \<open>Integrity check of a frame holder\<close>

text \<open>
  Modelled from the spec: \<^verbatim>\<open>DetailsBase::integrityCheck\<close> is defined outside the sources
  and the specification names no invariant of the base class, so it reports nothing.
\<close>

definition DetailsBase_integrityCheck :: "bool \<Rightarrow> GFrameHold \<Rightarrow> violation list \<Rightarrow> error + violation list" where
  "DetailsBase_integrityCheck strict g sink = Inr sink"

text \<open>
  \<^verbatim>\<open>GFrameHold::integrityCheck\<close>. The clef list id is set when it is non-zero, the clef
  id when the optional holds a value (the value 0 included).
\<close>

definition integrityCheck :: "bool \<Rightarrow> GFrameHold \<Rightarrow> violation list \<Rightarrow> error + violation list" where
  "integrityCheck strict g sink =
     (case DetailsBase_integrityCheck strict g sink of
        Inl e \<Rightarrow> Inl e
      | Inr sink1 \<Rightarrow>
          (case (if clefListId g \<noteq> 0 \<and> clefId g \<noteq> None
                 then MUSX_INTEGRITY_ERROR strict (BothClefAndClefList (cmper1 g) (cmper2 g)) sink1
                 else Inr sink1) of
             Inl e \<Rightarrow> Inl e
           | Inr sink2 \<Rightarrow>
               (if clefListId g = 0 \<and> clefId g = None
                then MUSX_INTEGRITY_ERROR strict (NeitherClefNorClefList (cmper1 g) (cmper2 g)) sink2
                else Inr sink2)))"

section \<open>Traversal of one layer\<close>

text \<open>
  The local \<^verbatim>\<open>struct TupletState\<close>. Its constructor builds the remaining symbolic duration
  first and the ratio second; the revision of the sources that holds the traversal calls the
  reference number and duration of the tuplet \<^verbatim>\<open>inTheTimeOfNumber\<close> and
  \<^verbatim>\<open>inTheTimeOfDuration\<close>.
\<close>

record TupletState =
  remainingSymbolicDuration :: Fraction
  ratio :: Fraction
  tuplet :: TupletDef

definition TupletState_ctor :: "TupletDef \<Rightarrow> error + TupletState" where
  "TupletState_ctor t =
     (case Fraction_ctor (sint (displayNumber t * displayDuration t)) NoteType_Whole of
        Inl e \<Rightarrow> Inl e
      | Inr rem \<Rightarrow>
          (case Fraction_ctor (sint (referenceNumber t * referenceDuration t))
                              (sint (displayNumber t * displayDuration t)) of
             Inl e \<Rightarrow> Inl e
           | Inr r \<Rightarrow> Inr \<lparr>remainingSymbolicDuration = rem, ratio = r, tuplet = t\<rparr>))"

text \<open>
  Modelled from the spec: \<^verbatim>\<open>Entry::calcFraction\<close> is defined outside the sources; it is
  the nominal duration of the entry, its ticks as a fraction of a whole note.
\<close>

definition calcFraction :: "Entry \<Rightarrow> Fraction" where
  "calcFraction e = Fract (sint (duration e)) NoteType_Whole"

text \<open>
  \<^verbatim>\<open>Entry::getNext\<close>: no next entry when the reference is 0; an integrity error, and no
  next entry, when the reference does not resolve in the entry pool.
\<close>

definition getNext :: "bool \<Rightarrow> Document \<Rightarrow> Entry \<Rightarrow> violation list \<Rightarrow> error + (Entry option \<times> violation list)" where
  "getNext strict doc e sink =
     (if m_next e = 0 then Inr (None, sink)
      else (case getEntries doc (m_next e) of
              Some n \<Rightarrow> Inr (Some n, sink)
            | None \<Rightarrow>
                (case MUSX_INTEGRITY_ERROR strict (NextEntryMissing (m_entnum e) (m_next e)) sink of
                   Inl err \<Rightarrow> Inl err
                 | Inr sink' \<Rightarrow> Inr (None, sink'))))"

text \<open>
  The state of the loop: the two locals \<^verbatim>\<open>activeTuplets\<close> and
  \<^verbatim>\<open>actualElapsedDuration\<close>, the state of the callback, and the diagnostic sink. Two
  further fields only record what happened and are never read by the traversal:
  \<open>emitted\<close> is the sequence of \<^verbatim>\<open>EntryInfo\<close> values handed to the callback so far, and
  \<open>activeAtCall\<close> the value of \<^verbatim>\<open>activeTuplets\<close> at each of these calls. The callback is
  a function of its own state that returns the continue signal and its new state.
\<close>

record 's IterState =
  activeTuplets :: "TupletState list"
  actualElapsedDuration :: Fraction
  cbstate :: 's
  reported :: "violation list"
  emitted :: "EntryInfo list"
  activeAtCall :: "TupletState list list"

type_synonym 's callback = "'s \<Rightarrow> EntryInfo \<Rightarrow> bool \<times> 's"

text \<open>The loop \<^verbatim>\<open>for (const auto& tuplet : tuplets) activeTuplets.emplace_back(tuplet)\<close>.\<close>

fun emplace_back_all :: "TupletDef list \<Rightarrow> TupletState list \<Rightarrow> error + TupletState list" where
  "emplace_back_all [] act = Inr act"
| "emplace_back_all (t # ts) act =
     (case TupletState_ctor t of
        Inl e \<Rightarrow> Inl e
      | Inr s \<Rightarrow> emplace_back_all ts (act @ [s]))"

text \<open>The loop \<^verbatim>\<open>cumulativeRatio = 1; for (t : activeTuplets) cumulativeRatio *= t.ratio\<close>.\<close>

definition cumulativeRatio :: "TupletState list \<Rightarrow> Fraction" where
  "cumulativeRatio act = fold (\<lambda>t r. r * ratio t) act 1"

text \<open>
  The loop \<^verbatim>\<open>for (t : activeTuplets) t.remainingSymbolicDuration -= actualDuration / t.ratio\<close>,
  which stops at the first division that fails.
\<close>

fun account_all :: "Fraction \<Rightarrow> TupletState list \<Rightarrow> error + TupletState list" where
  "account_all a [] = Inr []"
| "account_all a (t # ts) =
     (case Fraction_div a (ratio t) of
        Inl e \<Rightarrow> Inl e
      | Inr q \<Rightarrow>
          (case account_all a ts of
             Inl e \<Rightarrow> Inl e
           | Inr ts' \<Rightarrow>
               Inr (t\<lparr>remainingSymbolicDuration := remainingSymbolicDuration t - q\<rparr> # ts')))"

text \<open>The erase-remove of every tuplet whose remaining symbolic duration is not positive.\<close>

definition erase_finished :: "TupletState list \<Rightarrow> TupletState list" where
  "erase_finished act = filter (\<lambda>t. \<not> remainingSymbolicDuration t \<le> 0) act"

text \<open>The \<^verbatim>\<open>EntryInfo\<close> built for an entry, given the active tuplets and the elapsed duration.\<close>

definition make_entryInfo :: "GFrameHold \<Rightarrow> LayerIndex \<Rightarrow> Entry \<Rightarrow> TupletState list \<Rightarrow> Fraction \<Rightarrow> EntryInfo" where
  "make_entryInfo g layerIndex nextEntry act elapsed =
     \<lparr>info_staff = getStaff g, info_measure = getMeasure g, info_layerIndex = layerIndex,
      info_entry = nextEntry, elapsedDuration = elapsed,
      actualDuration = calcFraction nextEntry * cumulativeRatio act\<rparr>"

text \<open>
  One pass through the body of the loop over the entry chain, followed by the advance
  \<^verbatim>\<open>nextEntry = nextEntry->getNext()\<close> and the test of the loop condition. The pass ends
  the call (a \<^verbatim>\<open>return\<close>, a \<^verbatim>\<open>break\<close> or the end of the loop, both followed by
  \<^verbatim>\<open>return true\<close>, or an exception) or hands the next entry to the next pass.
\<close>

datatype 's pass = Return "error + bool" "'s IterState" | Continue Entry "'s IterState"

definition loopBody ::
  "bool \<Rightarrow> Document \<Rightarrow> GFrameHold \<Rightarrow> LayerIndex \<Rightarrow> Frame \<Rightarrow> 's callback \<Rightarrow> Entry \<Rightarrow> 's IterState
     \<Rightarrow> 's pass" where
  "loopBody strict doc g layerIndex frame iterator nextEntry st =
     (case emplace_back_all (getArray_TupletDef doc SCORE_PARTID (m_entnum nextEntry)) (activeTuplets st) of
        Inl e \<Rightarrow> Return (Inl e) st
      | Inr act \<Rightarrow>
          (let entryInfo = make_entryInfo g layerIndex nextEntry act (actualElapsedDuration st);
               called = iterator (cbstate st) entryInfo;
               st1 = st\<lparr>activeTuplets := act, cbstate := snd called,
                        emitted := emitted st @ [entryInfo],
                        activeAtCall := activeAtCall st @ [act]\<rparr>
           in if \<not> fst called then Return (Inr False) st1
              else if m_entnum nextEntry = endEntry frame then Return (Inr True) st1
              else
                (let st2 = st1\<lparr>actualElapsedDuration := actualElapsedDuration st1 + actualDuration entryInfo\<rparr>
                 in case account_all (actualDuration entryInfo) act of
                      Inl e \<Rightarrow> Return (Inl e) st2
                    | Inr act' \<Rightarrow>
                        (let st3 = st2\<lparr>activeTuplets := erase_finished act'\<rparr>
                         in case getNext strict doc nextEntry (reported st3) of
                              Inl e \<Rightarrow> Return (Inl e) st3
                            | Inr (None, sink) \<Rightarrow> Return (Inr True) (st3\<lparr>reported := sink\<rparr>)
                            | Inr (Some n, sink) \<Rightarrow> Continue n (st3\<lparr>reported := sink\<rparr>)))))"

text \<open>
  The loop over the entry chain. A chain that never ends makes the loop run forever; the
  function then has the value \<open>None\<close>.
\<close>

partial_function (option) entryLoop ::
  "bool \<Rightarrow> Document \<Rightarrow> GFrameHold \<Rightarrow> LayerIndex \<Rightarrow> Frame \<Rightarrow> 's callback \<Rightarrow> Entry \<Rightarrow> 's IterState
     \<Rightarrow> ((error + bool) \<times> 's IterState) option" where
  "entryLoop strict doc g layerIndex frame iterator nextEntry st =
     (case loopBody strict doc g layerIndex frame iterator nextEntry st of
        Return r st' \<Rightarrow> Some (r, st')
      | Continue n st' \<Rightarrow> entryLoop strict doc g layerIndex frame iterator n st')"

text \<open>The sum of the start times of all incarnations of the frame.\<close>

fun add_startTimes :: "Frame list \<Rightarrow> Fraction \<Rightarrow> error + Fraction" where
  "add_startTimes [] acc = Inr acc"
| "add_startTimes (f # fs) acc =
     (case Fraction_ctor (sint (startTime f)) NoteType_Whole of
        Inl e \<Rightarrow> Inl e
      | Inr q \<Rightarrow> add_startTimes fs (acc + q))"

text \<open>
  \<^verbatim>\<open>GFrameHold::iterateEntries(layerIndex, iterator)\<close>. The result pairs what the call
  returns or throws with the final state; \<open>cb0\<close> is the state of the callback before the call.
\<close>

definition iterateEntries ::
  "bool \<Rightarrow> Document \<Rightarrow> GFrameHold \<Rightarrow> LayerIndex \<Rightarrow> 's callback \<Rightarrow> 's
     \<Rightarrow> ((error + bool) \<times> 's IterState) option" where
  "iterateEntries strict doc g layerIndex iterator cb0 =
     (let st0 = \<lparr>activeTuplets = [], actualElapsedDuration = 0, cbstate = cb0, reported = [],
                 emitted = [], activeAtCall = []\<rparr>
      in if layerIndex \<ge> length (frames g) then Some (Inl invalid_argument, st0)
         else if frames g ! layerIndex = 0 then Some (Inr True, st0)
         else
           (let frameIncis = getArray_Frame doc (partId g) (frames g ! layerIndex)
            in case find (\<lambda>f. startEntry f \<noteq> 0) frameIncis of
                 Some frame \<Rightarrow>
                   (case getEntries doc (startEntry frame) of
                      None \<Rightarrow>
                        (case MUSX_INTEGRITY_ERROR strict (NotIterable (getStaff g) (getMeasure g)) (reported st0) of
                           Inl e \<Rightarrow> Some (Inl e, st0)
                         | Inr sink \<Rightarrow> Some (Inr True, st0\<lparr>reported := sink\<rparr>))
                    | Some firstEntry \<Rightarrow>
                        (case add_startTimes frameIncis 0 of
                           Inl e \<Rightarrow> Some (Inl e, st0)
                         | Inr elapsed \<Rightarrow>
                             entryLoop strict doc g layerIndex frame iterator firstEntry
                               (st0\<lparr>actualElapsedDuration := elapsed\<rparr>)))
               | None \<Rightarrow>
                   (case MUSX_INTEGRITY_ERROR strict
                           (NonExistentFrame (getStaff g) (getMeasure g) (frames g ! layerIndex)) (reported st0) of
                      Inl e \<Rightarrow> Some (Inl e, st0)
                    | Inr sink \<Rightarrow> Some (Inr True, st0\<lparr>reported := sink\<rparr>))))"

text \<open>
  Whether the chain of next references that starts at an entry ends within \<open>k\<close> further
  entries: at a reference that is 0 or at one that does not resolve.
\<close>

fun chain_ends_within :: "nat \<Rightarrow> Document \<Rightarrow> Entry \<Rightarrow> bool" where
  "chain_ends_within 0 doc e = (m_next e = 0 \<or> getEntries doc (m_next e) = None)"
| "chain_ends_within (Suc k) doc e =
     (m_next e = 0 \<or>
      (case getEntries doc (m_next e) of None \<Rightarrow> True | Some n \<Rightarrow> chain_ends_within k doc n))"

text \<open>
  The relation between two consecutive calls of the callback, each given as the
  \<^verbatim>\<open>EntryInfo\<close> handed over and the tuplets active at the call: the elapsed duration has
  advanced by the actual duration of the earlier entry, every tuplet active at the earlier call
  has a non-zero ratio and has been charged the actual duration divided by its ratio, the
  tuplets whose remaining symbolic duration is then not positive are gone, and the tuplets
  keyed to the later entry are appended. It is used to state and prove what the bookkeeping
  between two calls does.
\<close>

definition next_call :: "Document \<Rightarrow> EntryInfo \<times> TupletState list \<Rightarrow> EntryInfo \<times> TupletState list \<Rightarrow> bool" where
  "next_call doc p q =
     (elapsedDuration (fst q) = elapsedDuration (fst p) + actualDuration (fst p) \<and>
      (\<forall>t\<in>set (snd p). ratio t \<noteq> 0) \<and>
      (\<exists>new.
         snd q =
           filter (\<lambda>t. \<not> remainingSymbolicDuration t \<le> 0)
             (map (\<lambda>t. t\<lparr>remainingSymbolicDuration :=
                            remainingSymbolicDuration t - actualDuration (fst p) / ratio t\<rparr>)
                (snd p)) @ new \<and>
         list_all2 (\<lambda>t s. TupletState_ctor t = Inr s)
           (getArray_TupletDef doc SCORE_PARTID (m_entnum (info_entry (fst q)))) new))"

section \<open>Example documents\<close>

text \<open>
  A document with several frames. Frame 7: four quarter notes (entries 1 to 4), a triplet of
  three quarters in the time of two starting at entry 1, and a second incarnation without
  start entry that carries a start time of one quarter. Frame 8: one incarnation without a
  start entry. Frame 9: the single entry 5, whose chain ends before the recorded end entry 99.
  Frame 10: the single entry 6, whose next reference 66 does not resolve. Frame 11: two
  eighth notes (entries 7 and 8) with two tuplets starting together at entry 7. Frame 12:
  the start entry 50 does not exist. Frame 13: entry 9 is its own next entry. Frame 14:
  entries 10 and 11 with a tuplet of reference number 0 at entry 10. Frame 15: two whole
  notes (entries 12 and 13), a tuplet of one whole in the time of a half at entry 12.
\<close>

definition mk_entry :: "EntryNumber \<Rightarrow> EntryNumber \<Rightarrow> EntryNumber \<Rightarrow> Edu \<Rightarrow> Entry" where
  "mk_entry n prv nxt d = \<lparr>m_entnum = n, m_next = nxt, m_prev = prv, duration = d, isNote = True\<rparr>"

definition triplet :: TupletDef where
  "triplet = \<lparr>displayNumber = 3, displayDuration = 1024, referenceNumber = 2, referenceDuration = 1024\<rparr>"

definition quintuplet8 :: TupletDef where
  "quintuplet8 = \<lparr>displayNumber = 5, displayDuration = 512, referenceNumber = 4, referenceDuration = 512\<rparr>"

definition zero_reference :: TupletDef where
  "zero_reference = \<lparr>displayNumber = 3, displayDuration = 1024, referenceNumber = 0, referenceDuration = 1024\<rparr>"

definition zero_display :: TupletDef where
  "zero_display = \<lparr>displayNumber = 0, displayDuration = 1024, referenceNumber = 2, referenceDuration = 1024\<rparr>"

definition whole_in_half :: TupletDef where
  "whole_in_half = \<lparr>displayNumber = 1, displayDuration = 4096, referenceNumber = 1, referenceDuration = 2048\<rparr>"

definition example_entries :: "EntryNumber \<rightharpoonup> Entry" where
  "example_entries =
     [1 \<mapsto> mk_entry 1 0 2 1024, 2 \<mapsto> mk_entry 2 1 3 1024, 3 \<mapsto> mk_entry 3 2 4 1024,
      4 \<mapsto> mk_entry 4 3 0 1024, 5 \<mapsto> mk_entry 5 0 0 4096, 6 \<mapsto> mk_entry 6 0 66 4096,
      7 \<mapsto> mk_entry 7 0 8 512, 8 \<mapsto> mk_entry 8 7 0 512, 9 \<mapsto> mk_entry 9 9 9 1024,
      10 \<mapsto> mk_entry 10 0 11 1024, 11 \<mapsto> mk_entry 11 10 0 1024,
      12 \<mapsto> mk_entry 12 0 13 4096, 13 \<mapsto> mk_entry 13 12 0 4096]"

definition example_frames :: "Cmper \<Rightarrow> Cmper \<Rightarrow> Frame list" where
  "example_frames part cmper =
     (if cmper = 7 then [\<lparr>startEntry = 1, endEntry = 4, startTime = 0\<rparr>,
                         \<lparr>startEntry = 0, endEntry = 0, startTime = 1024\<rparr>]
      else if cmper = 8 then [\<lparr>startEntry = 0, endEntry = 0, startTime = 0\<rparr>]
      else if cmper = 9 then [\<lparr>startEntry = 5, endEntry = 99, startTime = 0\<rparr>]
      else if cmper = 10 then [\<lparr>startEntry = 6, endEntry = 99, startTime = 0\<rparr>]
      else if cmper = 11 then [\<lparr>startEntry = 7, endEntry = 8, startTime = 0\<rparr>]
      else if cmper = 12 then [\<lparr>startEntry = 50, endEntry = 51, startTime = 0\<rparr>]
      else if cmper = 13 then [\<lparr>startEntry = 9, endEntry = 99, startTime = 0\<rparr>]
      else if cmper = 14 then [\<lparr>startEntry = 10, endEntry = 11, startTime = 0\<rparr>]
      else if cmper = 15 then [\<lparr>startEntry = 12, endEntry = 13, startTime = 0\<rparr>]
      else [])"

definition example_tuplets :: "Cmper \<Rightarrow> EntryNumber \<Rightarrow> TupletDef list" where
  "example_tuplets part entnum =
     (if entnum = 1 then [triplet]
      else if entnum = 7 then [triplet, quintuplet8]
      else if entnum = 10 then [zero_reference]
      else if entnum = 12 then [whole_in_half]
      else [])"

definition example_doc :: Document where
  "example_doc = \<lparr>getEntries = example_entries, getArray_Frame = example_frames,
                  getArray_TupletDef = example_tuplets\<rparr>"

definition example_hold :: "Cmper list \<Rightarrow> GFrameHold" where
  "example_hold fs = \<lparr>partId = 0, cmper1 = 1, cmper2 = 1, clefId = Some 0, clefListId = 0,
                       frames = fs\<rparr>"

text \<open>The state in which the traversal of a layer starts when no start time is set.\<close>

definition start_state :: "unit IterState" where
  "start_state = \<lparr>activeTuplets = [], actualElapsedDuration = 0, cbstate = (), reported = [],
                   emitted = [], activeAtCall = []\<rparr>"

text \<open>A callback that always continues, and one that stops at once; neither keeps a state.\<close>

definition always_continue :: "unit callback" where
  "always_continue s info = (True, s)"

definition stop_at_once :: "unit callback" where
  "stop_at_once s info = (False, s)"

section \<open>Facts about the parts of the traversal\<close>

lemma Fract_whole_eq_0: "Fract a NoteType_Whole = 0 \<longleftrightarrow> a = 0"
  by (simp add: NoteType_Whole_def Fract_of_int_quotient)

lemma Fract_whole_div: "b \<noteq> 0 \<Longrightarrow> Fract a NoteType_Whole / Fract b NoteType_Whole = Fract a b"
  by (simp add: NoteType_Whole_def Fract_of_int_quotient)

lemma Fraction_ctor_whole: "Fraction_ctor a NoteType_Whole = Inr (Fract a NoteType_Whole)"
  by (simp add: Fraction_ctor_def NoteType_Whole_def)

lemma fold_ratio_prod: "fold (\<lambda>t r. r * ratio t) act c = c * prod_list (map ratio act)"
  by (induction act arbitrary: c) (simp_all add: mult.assoc)

lemma cumulativeRatio_prod: "cumulativeRatio act = prod_list (map ratio act)"
  by (simp add: cumulativeRatio_def fold_ratio_prod)

lemma TupletState_ctor_eq:
  "TupletState_ctor t =
     (case calcDisplayDuration t of Inl e \<Rightarrow> Inl e
      | Inr d \<Rightarrow> (case reference_over_display t of Inl e \<Rightarrow> Inl e
          | Inr r \<Rightarrow> Inr \<lparr>remainingSymbolicDuration = d, ratio = r, tuplet = t\<rparr>))"
proof (cases "sint (displayNumber t * displayDuration t) = 0")
  case True
  then show ?thesis
    by (simp add: TupletState_ctor_def reference_over_display_def calcReferenceDuration_def
        calcDisplayDuration_def Fraction_ctor_whole Fraction_div_def Fract_whole_eq_0)
       (simp add: Fraction_ctor_def)
next
  case False
  note q = Fract_whole_div [OF False, of "sint (referenceNumber t * referenceDuration t)"]
  from False show ?thesis
    unfolding TupletState_ctor_def reference_over_display_def calcReferenceDuration_def
        calcDisplayDuration_def Fraction_ctor_whole Fraction_div_def
    by (simp only: sum.case Fract_whole_eq_0 if_False q) (simp add: Fraction_ctor_def)
qed

lemma calcRatio_eq: "calcRatio t = reference_over_display t"
proof (cases "sint (displayNumber t * displayDuration t) = 0")
  case True
  then show ?thesis
    by (simp add: calcRatio_def reference_over_display_def calcReferenceDuration_def
        calcDisplayDuration_def Fraction_ctor_whole Fraction_div_def Fract_whole_eq_0)
       (simp add: Fraction_ctor_def)
next
  case False
  note q = Fract_whole_div [OF False, of "sint (referenceNumber t * referenceDuration t)"]
  from False show ?thesis
    unfolding calcRatio_def reference_over_display_def calcReferenceDuration_def
        calcDisplayDuration_def Fraction_ctor_whole Fraction_div_def
    by (simp only: sum.case Fract_whole_eq_0 if_False q) (simp add: Fraction_ctor_def)
qed

lemma TupletState_ctor_Inr:
  assumes "TupletState_ctor t = Inr s"
  shows "tuplet s = t" and "calcDisplayDuration t = Inr (remainingSymbolicDuration s)"
    and "reference_over_display t = Inr (ratio s)" and "calcRatio t = Inr (ratio s)"
  using assms unfolding calcRatio_eq TupletState_ctor_eq
  by (auto split: sum.splits)

lemma emplace_back_all_Inr:
  "emplace_back_all ts act = Inr act' \<Longrightarrow>
     \<exists>new. act' = act @ new \<and> list_all2 (\<lambda>t s. TupletState_ctor t = Inr s) ts new"
proof (induction ts arbitrary: act)
  case Nil
  then show ?case by simp
next
  case (Cons t ts)
  then obtain s where s: "TupletState_ctor t = Inr s"
    and r: "emplace_back_all ts (act @ [s]) = Inr act'"
    by (auto split: sum.splits)
  from Cons.IH [OF r] obtain new where
    "act' = (act @ [s]) @ new" "list_all2 (\<lambda>t s. TupletState_ctor t = Inr s) ts new"
    by blast
  with s show ?case
    by (intro exI [of _ "s # new"]) simp
qed

lemma account_all_Inr:
  "\<forall>t\<in>set act. ratio t \<noteq> 0 \<Longrightarrow>
   account_all a act =
     Inr (map (\<lambda>t. t\<lparr>remainingSymbolicDuration := remainingSymbolicDuration t - a / ratio t\<rparr>) act)"
  by (induction act) (simp_all add: Fraction_div_def)

lemma account_all_Inl_D: "account_all a act = Inl e \<Longrightarrow> e = invalid_argument \<and> (\<exists>t\<in>set act. ratio t = 0)"
  by (induction act) (auto simp add: Fraction_div_def split: sum.splits if_splits)

lemma account_all_Inr_D: "account_all a act = Inr act' \<Longrightarrow> \<forall>t\<in>set act. ratio t \<noteq> 0"
  by (induction act arbitrary: act') (auto simp add: Fraction_div_def split: sum.splits if_splits)

lemma account_all_Inl:
  "\<exists>t\<in>set act. ratio t = 0 \<Longrightarrow> account_all a act = Inl invalid_argument"
  by (cases "account_all a act") (auto dest: account_all_Inl_D account_all_Inr_D)

lemma add_startTimes_sum:
  "add_startTimes fs acc = Inr (acc + sum_list (map (\<lambda>f. Fract (sint (startTime f)) NoteType_Whole) fs))"
  by (induction fs arbitrary: acc) (simp_all add: Fraction_ctor_whole add.assoc)

lemma loopBody_fail:
  "emplace_back_all (getArray_TupletDef doc SCORE_PARTID (m_entnum e)) (activeTuplets st) = Inl err \<Longrightarrow>
   loopBody strict doc g li frame it e st = Return (Inl err) st"
  by (simp add: loopBody_def)

lemma loopBody_Return:
  "emplace_back_all (getArray_TupletDef doc SCORE_PARTID (m_entnum e)) (activeTuplets st) = Inr act \<Longrightarrow>
   loopBody strict doc g li frame it e st = Return r st' \<Longrightarrow>
   emitted st' = emitted st @ [make_entryInfo g li e act (actualElapsedDuration st)] \<and>
   activeAtCall st' = activeAtCall st @ [act]"
  by (auto simp add: loopBody_def Let_def split: if_splits sum.splits option.splits prod.splits)

lemma loopBody_Continue:
  "emplace_back_all (getArray_TupletDef doc SCORE_PARTID (m_entnum e)) (activeTuplets st) = Inr act \<Longrightarrow>
   loopBody strict doc g li frame it e st = Continue n st' \<Longrightarrow>
   emitted st' = emitted st @ [make_entryInfo g li e act (actualElapsedDuration st)] \<and>
   activeAtCall st' = activeAtCall st @ [act]"
  by (auto simp add: loopBody_def Let_def split: if_splits sum.splits option.splits prod.splits)

lemma loopBody_Continue_next:
  "loopBody strict doc g li frame it e st = Continue n st' \<Longrightarrow>
   m_next e \<noteq> 0 \<and> getEntries doc (m_next e) = Some n"
  by (auto simp add: loopBody_def Let_def getNext_def split: if_splits sum.splits option.splits prod.splits)

section \<open>Facts about the loop\<close>

lemma entryLoop_Return:
  "loopBody strict doc g li frame it e st = Return r st' \<Longrightarrow>
   entryLoop strict doc g li frame it e st = Some (r, st')"
  by (subst entryLoop.simps) simp

lemma entryLoop_Continue:
  "loopBody strict doc g li frame it e st = Continue n st' \<Longrightarrow>
   entryLoop strict doc g li frame it e st = entryLoop strict doc g li frame it n st'"
  by (subst entryLoop.simps) simp

lemma loopBody_extends_Return:
  assumes "loopBody strict doc g li frame it e st = Return r st'"
  shows "\<exists>rest restA. emitted st' = emitted st @ rest \<and> activeAtCall st' = activeAtCall st @ restA"
proof (cases "emplace_back_all (getArray_TupletDef doc SCORE_PARTID (m_entnum e)) (activeTuplets st)")
  case (Inl err)
  with loopBody_fail [OF Inl, of strict g li frame it] assms show ?thesis by auto
next
  case (Inr act)
  with loopBody_Return [OF Inr assms] show ?thesis by blast
qed

lemma loopBody_extends_Continue:
  assumes "loopBody strict doc g li frame it e st = Continue n st'"
  shows "\<exists>rest restA. emitted st' = emitted st @ rest \<and> activeAtCall st' = activeAtCall st @ restA"
proof (cases "emplace_back_all (getArray_TupletDef doc SCORE_PARTID (m_entnum e)) (activeTuplets st)")
  case (Inl err)
  with loopBody_fail [OF Inl, of strict g li frame it] assms show ?thesis by auto
next
  case (Inr act)
  with loopBody_Continue [OF Inr assms] show ?thesis by blast
qed

lemma entryLoop_extends:
  assumes "entryLoop strict doc g li frame it e st = Some (res, st')"
  shows "\<exists>rest restA. emitted st' = emitted st @ rest \<and> activeAtCall st' = activeAtCall st @ restA"
proof -
  have "\<exists>rest restA. emitted (snd (res, st')) = emitted st @ rest \<and>
          activeAtCall (snd (res, st')) = activeAtCall st @ restA"
  proof (rule entryLoop.raw_induct [where P = "\<lambda>strict doc g li frame it e st y.
           \<exists>rest restA. emitted (snd y) = emitted st @ rest \<and>
             activeAtCall (snd y) = activeAtCall st @ restA", OF _ assms])
    fix f :: "bool \<Rightarrow> Document \<Rightarrow> GFrameHold \<Rightarrow> nat \<Rightarrow> Frame \<Rightarrow> 'a callback \<Rightarrow> Entry \<Rightarrow> 'a IterState
                \<Rightarrow> ((error + bool) \<times> 'a IterState) option"
      and strict doc g li frame it e st y
    assume IH: "\<And>strict doc g li frame it e st y. f strict doc g li frame it e st = Some y \<Longrightarrow>
        \<exists>rest restA. emitted (snd y) = emitted st @ rest \<and> activeAtCall (snd y) = activeAtCall st @ restA"
      and body: "(case loopBody strict doc g li frame it e st of
                    Return r st' \<Rightarrow> Some (r, st')
                  | Continue n st' \<Rightarrow> f strict doc g li frame it n st') = Some y"
    show "\<exists>rest restA. emitted (snd y) = emitted st @ rest \<and> activeAtCall (snd y) = activeAtCall st @ restA"
    proof (cases "loopBody strict doc g li frame it e st")
      case (Return r st1)
      with body have "y = (r, st1)" by simp
      with loopBody_extends_Return [OF Return] show ?thesis by simp
    next
      case (Continue n st1)
      with body have "f strict doc g li frame it n st1 = Some y" by simp
      from IH [OF this] obtain rest restA where
        "emitted (snd y) = emitted st1 @ rest" "activeAtCall (snd y) = activeAtCall st1 @ restA"
        by blast
      moreover from loopBody_extends_Continue [OF Continue]
      obtain rest1 restA1 where
        "emitted st1 = emitted st @ rest1" "activeAtCall st1 = activeAtCall st @ restA1"
        by blast
      ultimately show ?thesis by simp
    qed
  qed
  then show ?thesis by simp
qed


lemma entryInfo_product:
  "actualDuration (make_entryInfo g li e act el) =
     calcFraction (info_entry (make_entryInfo g li e act el)) * prod_list (map ratio act)"
  by (simp add: make_entryInfo_def cumulativeRatio_prod)

lemma loopBody_keeps_product:
  assumes inv: "list_all2 (\<lambda>info act. actualDuration info =
                    calcFraction (info_entry info) * prod_list (map ratio act))
                  (emitted st) (activeAtCall st)"
    and body: "loopBody strict doc g li frame it e st = Return r st' \<or>
               loopBody strict doc g li frame it e st = Continue n st'"
  shows "list_all2 (\<lambda>info act. actualDuration info =
                    calcFraction (info_entry info) * prod_list (map ratio act))
                  (emitted st') (activeAtCall st')"
proof (cases "emplace_back_all (getArray_TupletDef doc SCORE_PARTID (m_entnum e)) (activeTuplets st)")
  case (Inl err)
  with loopBody_fail [OF Inl, of strict g li frame it] body inv show ?thesis by auto
next
  case (Inr act)
  from body loopBody_Return [OF Inr] loopBody_Continue [OF Inr]
  have "emitted st' = emitted st @ [make_entryInfo g li e act (actualElapsedDuration st)]"
    and "activeAtCall st' = activeAtCall st @ [act]"
    by blast+
  with inv show ?thesis
    by (simp add: list_all2_appendI entryInfo_product)
qed

lemma entryLoop_keeps_product:
  assumes "entryLoop strict doc g li frame it e st = Some (res, st')"
    and "list_all2 (\<lambda>info act. actualDuration info =
                    calcFraction (info_entry info) * prod_list (map ratio act))
                  (emitted st) (activeAtCall st)"
  shows "list_all2 (\<lambda>info act. actualDuration info =
                    calcFraction (info_entry info) * prod_list (map ratio act))
                  (emitted st') (activeAtCall st')"
proof -
  have "list_all2 (\<lambda>info act. actualDuration info =
                    calcFraction (info_entry info) * prod_list (map ratio act))
                  (emitted st) (activeAtCall st) \<longrightarrow>
        list_all2 (\<lambda>info act. actualDuration info =
                    calcFraction (info_entry info) * prod_list (map ratio act))
                  (emitted (snd (res, st'))) (activeAtCall (snd (res, st')))"
  proof (rule entryLoop.raw_induct [where P = "\<lambda>strict doc g li frame it e st y.
           list_all2 (\<lambda>info act. actualDuration info =
                    calcFraction (info_entry info) * prod_list (map ratio act))
                  (emitted st) (activeAtCall st) \<longrightarrow>
           list_all2 (\<lambda>info act. actualDuration info =
                    calcFraction (info_entry info) * prod_list (map ratio act))
                  (emitted (snd y)) (activeAtCall (snd y))", OF _ assms(1)])
    fix f :: "bool \<Rightarrow> Document \<Rightarrow> GFrameHold \<Rightarrow> nat \<Rightarrow> Frame \<Rightarrow> 'a callback \<Rightarrow> Entry \<Rightarrow> 'a IterState
                \<Rightarrow> ((error + bool) \<times> 'a IterState) option"
      and strict doc g li frame it e st y
    assume IH: "\<And>strict doc g li frame it e st y. f strict doc g li frame it e st = Some y \<Longrightarrow>
        list_all2 (\<lambda>info act. actualDuration info =
                    calcFraction (info_entry info) * prod_list (map ratio act))
                  (emitted st) (activeAtCall st) \<longrightarrow>
        list_all2 (\<lambda>info act. actualDuration info =
                    calcFraction (info_entry info) * prod_list (map ratio act))
                  (emitted (snd y)) (activeAtCall (snd y))"
      and body: "(case loopBody strict doc g li frame it e st of
                    Return r st' \<Rightarrow> Some (r, st')
                  | Continue n st' \<Rightarrow> f strict doc g li frame it n st') = Some y"
    show "list_all2 (\<lambda>info act. actualDuration info =
                    calcFraction (info_entry info) * prod_list (map ratio act))
                  (emitted st) (activeAtCall st) \<longrightarrow>
        list_all2 (\<lambda>info act. actualDuration info =
                    calcFraction (info_entry info) * prod_list (map ratio act))
                  (emitted (snd y)) (activeAtCall (snd y))"
    proof (cases "loopBody strict doc g li frame it e st")
      case (Return r st1)
      with body have "y = (r, st1)" by simp
      with loopBody_keeps_product [where st = st and st' = st1, OF _ disjI1, OF _ Return]
      show ?thesis by simp
    next
      case (Continue n st1)
      with body have "f strict doc g li frame it n st1 = Some y" by simp
      from IH [OF this]
        loopBody_keeps_product [where st = st and st' = st1, OF _ disjI2, OF _ Continue]
      show ?thesis by blast
    qed
  qed
  with assms(2) show ?thesis by simp
qed

lemma entryLoop_first_emitted:
  assumes run: "entryLoop strict doc g li frame it e st = Some (res, st')"
    and emp: "emplace_back_all (getArray_TupletDef doc SCORE_PARTID (m_entnum e)) (activeTuplets st) = Inr act"
  shows "\<exists>rest restA.
           emitted st' = emitted st @ make_entryInfo g li e act (actualElapsedDuration st) # rest \<and>
           activeAtCall st' = activeAtCall st @ act # restA"
proof (cases "loopBody strict doc g li frame it e st")
  case (Return r st1)
  with run entryLoop_Return [OF Return] have "st' = st1" by simp
  with loopBody_Return [OF emp Return] show ?thesis by simp
next
  case (Continue n st1)
  with run entryLoop_Continue [OF Continue]
  have "entryLoop strict doc g li frame it n st1 = Some (res, st')" by simp
  from entryLoop_extends [OF this] loopBody_Continue [OF emp Continue]
  show ?thesis by auto
qed

lemma entryLoop_emplace_fails:
  assumes run: "entryLoop strict doc g li frame it e st = Some (res, st')"
    and emp: "emplace_back_all (getArray_TupletDef doc SCORE_PARTID (m_entnum e)) (activeTuplets st) = Inl err"
  shows "res = Inl err \<and> st' = st"
  using run entryLoop_Return [OF loopBody_fail [OF emp], of strict g li frame it] by simp

lemma iterateEntries_cases:
  assumes "iterateEntries strict doc g layerIndex iterator cb0 = Some (res, st)"
  shows "(emitted st = [] \<and> activeAtCall st = []) \<or>
         (\<exists>frame firstEntry.
            entryLoop strict doc g layerIndex frame iterator firstEntry
              \<lparr>activeTuplets = [],
               actualElapsedDuration =
                 sum_list (map (\<lambda>f. Fract (sint (startTime f)) NoteType_Whole)
                   (getArray_Frame doc (partId g) (frames g ! layerIndex))),
               cbstate = cb0, reported = [], emitted = [], activeAtCall = []\<rparr> = Some (res, st))"
  using assms
  by (auto simp add: iterateEntries_def Let_def MUSX_INTEGRITY_ERROR_def add_startTimes_sum
      split: if_splits option.splits sum.splits)

lemma calcRatio_TupletState:
  "calcRatio t = Inr r \<Longrightarrow>
   \<exists>s. TupletState_ctor t = Inr s \<and> ratio s = r"
  by (simp add: TupletState_ctor_def calcRatio_def Fraction_ctor_whole)

section \<open>The bookkeeping between two calls of the callback\<close>

lemma successively_nth:
  "successively P xs \<Longrightarrow> Suc i < length xs \<Longrightarrow> P (xs ! i) (xs ! Suc i)"
proof (induction xs arbitrary: i)
  case Nil
  then show ?case by simp
next
  case (Cons x xs)
  show ?case
  proof (cases i)
    case 0
    with Cons.prems show ?thesis
      by (cases xs) (simp_all add: successively_Cons)
  next
    case (Suc j)
    with Cons.prems Cons.IH [of j] show ?thesis
      by (auto simp add: successively_Cons)
  qed
qed

lemma last_zip_same_length:
  "length xs = length ys \<Longrightarrow> xs \<noteq> [] \<Longrightarrow> last (zip xs ys) = (last xs, last ys)"
  by (induction xs ys rule: list_induct2) (auto simp add: zip_eq_Nil_iff)

lemma loopBody_emitted_info:
  assumes emp: "emplace_back_all (getArray_TupletDef doc SCORE_PARTID (m_entnum e)) (activeTuplets st) = Inr act"
    and body: "loopBody strict doc g li frame it e st = Return r st' \<or>
               loopBody strict doc g li frame it e st = Continue n st'"
  shows "emitted st' = emitted st @ [make_entryInfo g li e act (actualElapsedDuration st)]"
    and "activeAtCall st' = activeAtCall st @ [act]"
  using body loopBody_Return [OF emp] loopBody_Continue [OF emp] by blast+

lemma loopBody_Continue_state:
  assumes emp: "emplace_back_all (getArray_TupletDef doc SCORE_PARTID (m_entnum e)) (activeTuplets st) = Inr act"
    and body: "loopBody strict doc g li frame it e st = Continue n st'"
  shows "actualElapsedDuration st' =
           actualElapsedDuration st + actualDuration (make_entryInfo g li e act (actualElapsedDuration st)) \<and>
         (\<forall>t\<in>set act. ratio t \<noteq> 0) \<and>
         activeTuplets st' =
           filter (\<lambda>t. \<not> remainingSymbolicDuration t \<le> 0)
             (map (\<lambda>t. t\<lparr>remainingSymbolicDuration := remainingSymbolicDuration t -
                  actualDuration (make_entryInfo g li e act (actualElapsedDuration st)) / ratio t\<rparr>) act) \<and>
         fst (it (cbstate st) (make_entryInfo g li e act (actualElapsedDuration st))) \<and>
         m_entnum e \<noteq> endEntry frame"
proof -
  from body emp obtain act' where
    acc: "account_all (actualDuration (make_entryInfo g li e act (actualElapsedDuration st))) act = Inr act'"
    and el: "actualElapsedDuration st' =
           actualElapsedDuration st + actualDuration (make_entryInfo g li e act (actualElapsedDuration st))"
    and at: "activeTuplets st' = erase_finished act'"
    and c: "fst (it (cbstate st) (make_entryInfo g li e act (actualElapsedDuration st)))"
       "m_entnum e \<noteq> endEntry frame"
    by (auto simp add: loopBody_def Let_def split: if_splits sum.splits option.splits prod.splits)
  from account_all_Inr_D [OF acc] have nz: "\<forall>t\<in>set act. ratio t \<noteq> 0" .
  from account_all_Inr [OF nz] acc at el nz c show ?thesis
    by (simp add: erase_finished_def)
qed

lemma loopBody_trace:
  assumes len: "length (activeAtCall st) = length (emitted st)"
    and suc: "successively (next_call doc) (zip (emitted st) (activeAtCall st))"
    and link: "emitted st \<noteq> [] \<longrightarrow>
         actualElapsedDuration st =
           elapsedDuration (last (emitted st)) + actualDuration (last (emitted st)) \<and>
         (\<forall>t\<in>set (last (activeAtCall st)). ratio t \<noteq> 0) \<and>
         activeTuplets st =
           filter (\<lambda>t. \<not> remainingSymbolicDuration t \<le> 0)
             (map (\<lambda>t. t\<lparr>remainingSymbolicDuration := remainingSymbolicDuration t -
                  actualDuration (last (emitted st)) / ratio t\<rparr>) (last (activeAtCall st)))"
    and body: "loopBody strict doc g li frame it e st = Return r st' \<or>
               loopBody strict doc g li frame it e st = Continue n st'"
  shows "length (activeAtCall st') = length (emitted st') \<and>
         successively (next_call doc) (zip (emitted st') (activeAtCall st'))"
proof (cases "emplace_back_all (getArray_TupletDef doc SCORE_PARTID (m_entnum e)) (activeTuplets st)")
  case (Inl err)
  with loopBody_fail [OF Inl, of strict g li frame it] body len suc show ?thesis by auto
next
  case (Inr act)
  note em = loopBody_emitted_info [OF Inr body]
  from emplace_back_all_Inr [OF Inr] obtain new where
    new: "act = activeTuplets st @ new"
      "list_all2 (\<lambda>t s. TupletState_ctor t = Inr s)
         (getArray_TupletDef doc SCORE_PARTID (m_entnum e)) new"
    by blast
  have last_ok: "emitted st \<noteq> [] \<longrightarrow>
      next_call doc (last (zip (emitted st) (activeAtCall st)))
        (make_entryInfo g li e act (actualElapsedDuration st), act)"
  proof
    assume ne: "emitted st \<noteq> []"
    with len have "last (zip (emitted st) (activeAtCall st)) = (last (emitted st), last (activeAtCall st))"
      by (simp add: last_zip_same_length)
    with link ne new show "next_call doc (last (zip (emitted st) (activeAtCall st)))
        (make_entryInfo g li e act (actualElapsedDuration st), act)"
      by (simp add: next_call_def make_entryInfo_def)
  qed
  from len em have "zip (emitted st') (activeAtCall st') =
      zip (emitted st) (activeAtCall st) @ [(make_entryInfo g li e act (actualElapsedDuration st), act)]"
    by simp
  with suc last_ok len em show ?thesis
    by (auto simp add: successively_append_iff zip_eq_Nil_iff)
qed

lemma loopBody_link:
  assumes body: "loopBody strict doc g li frame it e st = Continue n st'"
  shows "emitted st' \<noteq> [] \<and>
         actualElapsedDuration st' =
           elapsedDuration (last (emitted st')) + actualDuration (last (emitted st')) \<and>
         (\<forall>t\<in>set (last (activeAtCall st')). ratio t \<noteq> 0) \<and>
         activeTuplets st' =
           filter (\<lambda>t. \<not> remainingSymbolicDuration t \<le> 0)
             (map (\<lambda>t. t\<lparr>remainingSymbolicDuration := remainingSymbolicDuration t -
                  actualDuration (last (emitted st')) / ratio t\<rparr>) (last (activeAtCall st')))"
proof (cases "emplace_back_all (getArray_TupletDef doc SCORE_PARTID (m_entnum e)) (activeTuplets st)")
  case (Inl err)
  with loopBody_fail [OF Inl, of strict g li frame it] body show ?thesis by simp
next
  case (Inr act)
  from loopBody_Continue [OF Inr body] loopBody_Continue_state [OF Inr body]
  show ?thesis by (simp add: make_entryInfo_def)
qed


lemma entryLoop_trace:
  assumes run: "entryLoop strict doc g li frame it e st = Some (res, st')"
    and len: "length (activeAtCall st) = length (emitted st)"
    and suc: "successively (next_call doc) (zip (emitted st) (activeAtCall st))"
    and link: "emitted st \<noteq> [] \<longrightarrow>
         actualElapsedDuration st =
           elapsedDuration (last (emitted st)) + actualDuration (last (emitted st)) \<and>
         (\<forall>t\<in>set (last (activeAtCall st)). ratio t \<noteq> 0) \<and>
         activeTuplets st =
           filter (\<lambda>t. \<not> remainingSymbolicDuration t \<le> 0)
             (map (\<lambda>t. t\<lparr>remainingSymbolicDuration := remainingSymbolicDuration t -
                  actualDuration (last (emitted st)) / ratio t\<rparr>) (last (activeAtCall st)))"
  shows "length (activeAtCall st') = length (emitted st') \<and>
         successively (next_call doc) (zip (emitted st') (activeAtCall st'))"
proof -
  let ?Fin = "\<lambda>doc st. length (activeAtCall st) = length (emitted st) \<and>
         successively (next_call doc) (zip (emitted st) (activeAtCall st))"
  let ?Link = "\<lambda>st. emitted st \<noteq> [] \<longrightarrow>
         actualElapsedDuration st =
           elapsedDuration (last (emitted st)) + actualDuration (last (emitted st)) \<and>
         (\<forall>t\<in>set (last (activeAtCall st)). ratio t \<noteq> 0) \<and>
         activeTuplets st =
           filter (\<lambda>t. \<not> remainingSymbolicDuration t \<le> 0)
             (map (\<lambda>t. t\<lparr>remainingSymbolicDuration := remainingSymbolicDuration t -
                  actualDuration (last (emitted st)) / ratio t\<rparr>) (last (activeAtCall st)))"
  have "?Fin doc st \<and> ?Link st \<longrightarrow> ?Fin doc (snd (res, st'))"
  proof (rule entryLoop.raw_induct [where P = "\<lambda>strict doc g li frame it e st y.
           ?Fin doc st \<and> ?Link st \<longrightarrow> ?Fin doc (snd y)", OF _ run])
    fix f :: "bool \<Rightarrow> Document \<Rightarrow> GFrameHold \<Rightarrow> nat \<Rightarrow> Frame \<Rightarrow> 'a callback \<Rightarrow> Entry \<Rightarrow> 'a IterState
                \<Rightarrow> ((error + bool) \<times> 'a IterState) option"
      and strict doc g li frame it e st y
    assume IH: "\<And>strict doc g li frame it e st y. f strict doc g li frame it e st = Some y \<Longrightarrow>
        ?Fin doc st \<and> ?Link st \<longrightarrow> ?Fin doc (snd y)"
      and body: "(case loopBody strict doc g li frame it e st of
                    Return r st' \<Rightarrow> Some (r, st')
                  | Continue n st' \<Rightarrow> f strict doc g li frame it n st') = Some y"
    show "?Fin doc st \<and> ?Link st \<longrightarrow> ?Fin doc (snd y)"
    proof
      assume inv: "?Fin doc st \<and> ?Link st"
      show "?Fin doc (snd y)"
      proof (cases "loopBody strict doc g li frame it e st")
        case (Return r st1)
        with body have "y = (r, st1)" by simp
        with loopBody_trace [where st = st and st' = st1 and doc = doc, OF _ _ _ disjI1, OF _ _ _ Return] inv
        show ?thesis by simp
      next
        case (Continue n st1)
        with body have rec: "f strict doc g li frame it n st1 = Some y" by simp
        from loopBody_trace [where st = st and st' = st1 and doc = doc, OF _ _ _ disjI2, OF _ _ _ Continue] inv
        have "?Fin doc st1" by simp
        moreover from loopBody_link [OF Continue] have "?Link st1" by simp
        ultimately show ?thesis using IH [OF rec] by blast
      qed
    qed
  qed
  with len suc link show ?thesis by simp
qed

lemma iterateEntries_trace:
  assumes "iterateEntries strict doc g layerIndex iterator cb0 = Some (res, st)"
  shows "length (activeAtCall st) = length (emitted st) \<and>
         successively (next_call doc) (zip (emitted st) (activeAtCall st))"
  using iterateEntries_cases [OF assms]
proof (elim disjE exE)
  assume "emitted st = [] \<and> activeAtCall st = []"
  then show ?thesis by simp
next
  fix frame firstEntry
  assume "entryLoop strict doc g layerIndex frame iterator firstEntry
              \<lparr>activeTuplets = [],
               actualElapsedDuration =
                 sum_list (map (\<lambda>f. Fract (sint (startTime f)) NoteType_Whole)
                   (getArray_Frame doc (partId g) (frames g ! layerIndex))),
               cbstate = cb0, reported = [], emitted = [], activeAtCall = []\<rparr> = Some (res, st)"
  from entryLoop_trace [OF this] show ?thesis by simp
qed

lemma loopBody_advance:
  assumes "emplace_back_all (getArray_TupletDef doc SCORE_PARTID (m_entnum e)) (activeTuplets st) = Inr act"
    and "fst (it (cbstate st) (make_entryInfo g li e act (actualElapsedDuration st)))"
    and "m_entnum e \<noteq> endEntry frame"
    and "\<forall>t\<in>set act. ratio t \<noteq> 0"
  shows "loopBody strict doc g li frame it e st =
     (case getNext strict doc e (reported st) of
        Inl err \<Rightarrow>
          Return (Inl err)
            (st\<lparr>activeTuplets :=
                   filter (\<lambda>t. \<not> remainingSymbolicDuration t \<le> 0)
                     (map (\<lambda>t. t\<lparr>remainingSymbolicDuration := remainingSymbolicDuration t -
                        calcFraction e * prod_list (map ratio act) / ratio t\<rparr>) act),
                 actualElapsedDuration := actualElapsedDuration st + calcFraction e * prod_list (map ratio act),
                 cbstate := snd (it (cbstate st) (make_entryInfo g li e act (actualElapsedDuration st))),
                 emitted := emitted st @ [make_entryInfo g li e act (actualElapsedDuration st)],
                 activeAtCall := activeAtCall st @ [act]\<rparr>)
      | Inr (None, sink) \<Rightarrow>
          Return (Inr True)
            (st\<lparr>activeTuplets :=
                   filter (\<lambda>t. \<not> remainingSymbolicDuration t \<le> 0)
                     (map (\<lambda>t. t\<lparr>remainingSymbolicDuration := remainingSymbolicDuration t -
                        calcFraction e * prod_list (map ratio act) / ratio t\<rparr>) act),
                 actualElapsedDuration := actualElapsedDuration st + calcFraction e * prod_list (map ratio act),
                 cbstate := snd (it (cbstate st) (make_entryInfo g li e act (actualElapsedDuration st))),
                 emitted := emitted st @ [make_entryInfo g li e act (actualElapsedDuration st)],
                 activeAtCall := activeAtCall st @ [act], reported := sink\<rparr>)
      | Inr (Some n, sink) \<Rightarrow>
          Continue n
            (st\<lparr>activeTuplets :=
                   filter (\<lambda>t. \<not> remainingSymbolicDuration t \<le> 0)
                     (map (\<lambda>t. t\<lparr>remainingSymbolicDuration := remainingSymbolicDuration t -
                        calcFraction e * prod_list (map ratio act) / ratio t\<rparr>) act),
                 actualElapsedDuration := actualElapsedDuration st + calcFraction e * prod_list (map ratio act),
                 cbstate := snd (it (cbstate st) (make_entryInfo g li e act (actualElapsedDuration st))),
                 emitted := emitted st @ [make_entryInfo g li e act (actualElapsedDuration st)],
                 activeAtCall := activeAtCall st @ [act], reported := sink\<rparr>))"
  using assms
  by (simp add: loopBody_def Let_def account_all_Inr erase_finished_def entryInfo_product
        split: sum.splits option.splits prod.splits)
     (simp add: make_entryInfo_def)

section \<open>The tuplets started at an entry\<close>

lemma TupletState_ctor_initial:
  "TupletState_ctor t = Inr s \<Longrightarrow>
   tuplet s = t \<and> calcDisplayDuration t = Inr (remainingSymbolicDuration s) \<and>
   remainingSymbolicDuration s = Fract (sint (displayNumber t * displayDuration t)) NoteType_Whole \<and>
   reference_over_display t = Inr (ratio s)"
  using TupletState_ctor_Inr [of t s]
  by (simp add: calcDisplayDuration_def Fraction_ctor_whole)

lemma list_all2_ctor_initial:
  "list_all2 (\<lambda>t s. TupletState_ctor t = Inr s) ts new \<Longrightarrow>
   list_all2 (\<lambda>t s. tuplet s = t \<and> calcDisplayDuration t = Inr (remainingSymbolicDuration s) \<and>
      remainingSymbolicDuration s = Fract (sint (displayNumber t * displayDuration t)) NoteType_Whole \<and>
      reference_over_display t = Inr (ratio s)) ts new"
  by (erule list_all2_mono) (rule TupletState_ctor_initial)

lemma iterateEntries_first_call:
  assumes run: "iterateEntries strict doc g layerIndex iterator cb0 = Some (res, st)"
    and ne: "emitted st \<noteq> []"
  shows "list_all2 (\<lambda>t s. TupletState_ctor t = Inr s)
           (getArray_TupletDef doc SCORE_PARTID (m_entnum (info_entry (emitted st ! 0))))
           (activeAtCall st ! 0)"
  using iterateEntries_cases [OF run]
proof (elim disjE exE)
  assume "emitted st = [] \<and> activeAtCall st = []"
  with ne show ?thesis by simp
next
  fix frame firstEntry
  assume loop: "entryLoop strict doc g layerIndex frame iterator firstEntry
              \<lparr>activeTuplets = [],
               actualElapsedDuration =
                 sum_list (map (\<lambda>f. Fract (sint (startTime f)) NoteType_Whole)
                   (getArray_Frame doc (partId g) (frames g ! layerIndex))),
               cbstate = cb0, reported = [], emitted = [], activeAtCall = []\<rparr> = Some (res, st)"
  show ?thesis
  proof (cases "emplace_back_all (getArray_TupletDef doc SCORE_PARTID (m_entnum firstEntry)) []")
    case (Inl err)
    with entryLoop_emplace_fails [OF loop] ne show ?thesis by simp
  next
    case (Inr act)
    from emplace_back_all_Inr [OF Inr] have
      "list_all2 (\<lambda>t s. TupletState_ctor t = Inr s)
         (getArray_TupletDef doc SCORE_PARTID (m_entnum firstEntry)) act"
      by simp
    with entryLoop_first_emitted [OF loop, of act] Inr show ?thesis
      by (auto simp add: make_entryInfo_def)
  qed
qed

section \<open>The end of the chain\<close>

lemma entryLoop_terminates:
  "chain_ends_within k doc e \<Longrightarrow> \<exists>r. entryLoop strict doc g li frame it e st = Some r"
proof (induction k arbitrary: e st)
  case 0
  show ?case
  proof (cases "loopBody strict doc g li frame it e st")
    case (Return r st')
    from entryLoop_Return [OF this] show ?thesis by blast
  next
    case (Continue n st')
    from loopBody_Continue_next [OF this] "0.prems" show ?thesis by simp
  qed
next
  case (Suc k)
  show ?case
  proof (cases "loopBody strict doc g li frame it e st")
    case (Return r st')
    from entryLoop_Return [OF this] show ?thesis by blast
  next
    case (Continue n st')
    from loopBody_Continue_next [OF this] Suc.prems have "chain_ends_within k doc n" by simp
    from Suc.IH [OF this, of st'] entryLoop_Continue [OF Continue] show ?thesis by simp
  qed
qed

lemma iterateEntries_terminates:
  assumes "\<forall>fr firstEntry.
      find (\<lambda>f. startEntry f \<noteq> 0) (getArray_Frame doc (partId g) (frames g ! layerIndex)) = Some fr \<and>
      getEntries doc (startEntry fr) = Some firstEntry \<longrightarrow> chain_ends_within k doc firstEntry"
  shows "\<exists>r. iterateEntries strict doc g layerIndex iterator cb0 = Some r"
proof (cases "find (\<lambda>f. startEntry f \<noteq> 0) (getArray_Frame doc (partId g) (frames g ! layerIndex))")
  case None
  then show ?thesis
    by (simp add: iterateEntries_def Let_def MUSX_INTEGRITY_ERROR_def)
next
  case (Some fr)
  show ?thesis
  proof (cases "getEntries doc (startEntry fr)")
    case None
    with Some show ?thesis
      by (simp add: iterateEntries_def Let_def MUSX_INTEGRITY_ERROR_def)
  next
    case (Some firstEntry)
    with \<open>find (\<lambda>f. startEntry f \<noteq> 0) (getArray_Frame doc (partId g) (frames g ! layerIndex)) = Some fr\<close>
      assms have "chain_ends_within k doc firstEntry" by blast
    from entryLoop_terminates [OF this] obtain r where
      "entryLoop strict doc g layerIndex fr iterator firstEntry
         \<lparr>activeTuplets = [],
          actualElapsedDuration =
            sum_list (map (\<lambda>f. Fract (sint (startTime f)) NoteType_Whole)
              (getArray_Frame doc (partId g) (frames g ! layerIndex))),
          cbstate = cb0, reported = [], emitted = [], activeAtCall = []\<rparr> = Some r"
      by blast
    with Some
      \<open>find (\<lambda>f. startEntry f \<noteq> 0) (getArray_Frame doc (partId g) (frames g ! layerIndex)) = Some fr\<close>
    show ?thesis
      by (simp add: iterateEntries_def Let_def add_startTimes_sum)
  qed
qed

lemma getNext_cases:
  "m_next e = 0 \<Longrightarrow> getNext strict doc e sink = Inr (None, sink)"
  "m_next e \<noteq> 0 \<Longrightarrow> getEntries doc (m_next e) = None \<Longrightarrow>
     getNext True doc e sink = Inl (integrity_error (NextEntryMissing (m_entnum e) (m_next e)))"
  "m_next e \<noteq> 0 \<Longrightarrow> getEntries doc (m_next e) = None \<Longrightarrow>
     getNext False doc e sink = Inr (None, sink @ [NextEntryMissing (m_entnum e) (m_next e)])"
  by (simp_all add: getNext_def MUSX_INTEGRITY_ERROR_def)

section \<open>Stops that are not the end of the frame\<close>

text \<open>
  The constructor of a frame holder gives it its four layer slots.
\<close>

lemma GFrameHold_ctor_layers: "length (frames (GFrameHold_ctor part inst meas)) = MAX_LAYERS"
  by (simp add: GFrameHold_ctor_def)

text \<open>
  When the callback answers \<open>False\<close> the traversal returns \<open>False\<close> at once, without any
  bookkeeping for the entry.
\<close>

lemma callback_stop_returns_False:
  assumes "emplace_back_all (getArray_TupletDef doc SCORE_PARTID (m_entnum e)) (activeTuplets st) = Inr act"
    and "\<not> fst (it (cbstate st) (make_entryInfo g li e act (actualElapsedDuration st)))"
  shows "entryLoop strict doc g li frame it e st =
           Some (Inr False,
                 st\<lparr>activeTuplets := act,
                     cbstate := snd (it (cbstate st) (make_entryInfo g li e act (actualElapsedDuration st))),
                     emitted := emitted st @ [make_entryInfo g li e act (actualElapsedDuration st)],
                     activeAtCall := activeAtCall st @ [act]\<rparr>)"
  using assms by (intro entryLoop_Return) (simp add: loopBody_def Let_def)

text \<open>
  When an active tuplet has the ratio 0 (its reference number or reference duration is 0),
  the division of the actual duration by the ratio fails: after an entry that is not the end
  entry and for which the callback asked to continue, the traversal ends with an
  invalid-argument error.
\<close>

lemma zero_ratio_throws:
  assumes "emplace_back_all (getArray_TupletDef doc SCORE_PARTID (m_entnum e)) (activeTuplets st) = Inr act"
    and "fst (it (cbstate st) (make_entryInfo g li e act (actualElapsedDuration st)))"
    and "m_entnum e \<noteq> endEntry frame"
    and "\<exists>t\<in>set act. ratio t = 0"
  shows "\<exists>st'. entryLoop strict doc g li frame it e st = Some (Inl invalid_argument, st')"
proof -
  from account_all_Inl [OF assms(4)] assms(1-3)
  have "\<exists>st'. loopBody strict doc g li frame it e st = Return (Inl invalid_argument) st'"
    by (simp add: loopBody_def Let_def)
  then show ?thesis
    by (blast intro: entryLoop_Return)
qed

section \<open>Unfolding the definitions on concrete inputs\<close>

lemmas example_defs = example_doc_def example_hold_def example_frames_def example_entries_def
  example_tuplets_def always_continue_def stop_at_once_def mk_entry_def triplet_def quintuplet8_def
  zero_reference_def zero_display_def whole_in_half_def start_state_def

lemmas model_defs = iterateEntries_def loopBody_def make_entryInfo_def getNext_def
  Fraction_ctor_def Fraction_div_def NoteType_Whole_def TupletState_ctor_def
  cumulativeRatio_def calcFraction_def getStaff_def getMeasure_def erase_finished_def
  SCORE_PARTID_def MUSX_INTEGRITY_ERROR_def

lemma run_frame11:
  "\<exists>res st. iterateEntries False example_doc (example_hold [11, 12, 14, 15]) 0 always_continue () =
      Some (res, st) \<and>
    length (emitted st) = 2 \<and> actualDuration (emitted st ! 0) = 1 / 15 \<and>
    calcFraction (info_entry (emitted st ! 0)) = 1 / 8 \<and>
    map ratio (activeAtCall st ! 0) = [2 / 3, 4 / 5] \<and>
    actualDuration (emitted st ! 1) = 1 / 15"
  by (simp add: model_defs example_defs Let_def entryLoop.simps Fract_of_int_quotient)

lemma loop_frame11:
  "\<exists>res st. entryLoop False example_doc (example_hold [11, 12, 14, 15]) 0
       \<lparr>startEntry = 7, endEntry = 8, startTime = 0\<rparr> always_continue (mk_entry 7 0 8 512)
       start_state = Some (res, st)"
  by (simp add: model_defs example_defs Let_def entryLoop.simps Fract_of_int_quotient)

lemma run_frame7:
  "\<exists>res st. iterateEntries False example_doc (example_hold [7, 8, 9, 10]) 0 always_continue () =
      Some (res, st) \<and> length (emitted st) = 4 \<and>
    elapsedDuration (emitted st ! 2) = 7 / 12 \<and> actualDuration (emitted st ! 2) = 1 / 6 \<and>
    elapsedDuration (emitted st ! 3) = 3 / 4 \<and> actualDuration (emitted st ! 3) = 1 / 4 \<and>
    activeAtCall st ! 2 = [\<lparr>remainingSymbolicDuration = 1 / 4, ratio = 2 / 3, tuplet = triplet\<rparr>] \<and>
    activeAtCall st ! 3 = []"
  by (simp add: model_defs example_defs Let_def entryLoop.simps Fract_of_int_quotient)


lemma run_frame11_states:
  "\<exists>res st. iterateEntries False example_doc (example_hold [11, 12, 14, 15]) 0 always_continue () =
      Some (res, st) \<and> length (emitted st) = 2 \<and>
    info_entry (emitted st ! 0) = mk_entry 7 0 8 512 \<and>
    actualDuration (emitted st ! 0) = 1 / 15 \<and>
    activeAtCall st ! 0 =
      [\<lparr>remainingSymbolicDuration = 3 / 4, ratio = 2 / 3, tuplet = triplet\<rparr>,
       \<lparr>remainingSymbolicDuration = 5 / 8, ratio = 4 / 5, tuplet = quintuplet8\<rparr>] \<and>
    activeAtCall st ! Suc 0 =
      [\<lparr>remainingSymbolicDuration = 13 / 20, ratio = 2 / 3, tuplet = triplet\<rparr>,
       \<lparr>remainingSymbolicDuration = 13 / 24, ratio = 4 / 5, tuplet = quintuplet8\<rparr>]"
  by (simp add: model_defs example_defs Let_def entryLoop.simps Fract_of_int_quotient)

lemma run_zero_reference:
  "\<exists>st. iterateEntries False example_doc (example_hold [11, 12, 14, 15]) 2 always_continue () =
      Some (Inl invalid_argument, st) \<and>
    map (m_entnum \<circ> info_entry) (emitted st) = [10] \<and> map ratio (activeTuplets st) = [0]"
  by (simp add: model_defs example_defs Let_def entryLoop.simps Fract_of_int_quotient
      rat_number_collapse)

lemma run_stop_at_once:
  "\<exists>st. iterateEntries False example_doc (example_hold [7, 8, 9, 10]) 0 stop_at_once () =
      Some (Inr False, st) \<and>
    map (m_entnum \<circ> info_entry) (emitted st) = [1] \<and> actualElapsedDuration st = 1 / 4"
  by (simp add: model_defs example_defs Let_def entryLoop.simps Fract_of_int_quotient)

text \<open>
  A chain that returns to an entry it has visited never reaches a reference that is 0 or
  unresolved: in frame 13 of the example, entry 9 is its own next entry and the recorded end
  entry 99 is never met, so with a callback that always continues the loop runs forever.
\<close>

lemma cyclic_chain_loop:
  assumes "entryLoop strict doc g li frame it e st = Some y"
  shows "\<not> (doc = example_doc \<and> frame = \<lparr>startEntry = 9, endEntry = 99, startTime = 0\<rparr> \<and>
            it = always_continue \<and> e = mk_entry 9 9 9 1024 \<and> activeTuplets st = [])"
proof (rule entryLoop.raw_induct [where P = "\<lambda>strict doc g li frame it e st y.
     \<not> (doc = example_doc \<and> frame = \<lparr>startEntry = 9, endEntry = 99, startTime = 0\<rparr> \<and>
        it = always_continue \<and> e = mk_entry 9 9 9 1024 \<and> activeTuplets st = [])", OF _ assms])
  fix f :: "bool \<Rightarrow> Document \<Rightarrow> GFrameHold \<Rightarrow> nat \<Rightarrow> Frame \<Rightarrow> unit callback \<Rightarrow> Entry \<Rightarrow> unit IterState
              \<Rightarrow> ((error + bool) \<times> unit IterState) option"
    and strict doc g li frame it e st y
  assume IH: "\<And>strict doc g li frame it e st y. f strict doc g li frame it e st = Some y \<Longrightarrow>
      \<not> (doc = example_doc \<and> frame = \<lparr>startEntry = 9, endEntry = 99, startTime = 0\<rparr> \<and>
         it = always_continue \<and> e = mk_entry 9 9 9 1024 \<and> activeTuplets st = [])"
    and body: "(case loopBody strict doc g li frame it e st of
                  Return r st' \<Rightarrow> Some (r, st')
                | Continue n st' \<Rightarrow> f strict doc g li frame it n st') = Some y"
  show "\<not> (doc = example_doc \<and> frame = \<lparr>startEntry = 9, endEntry = 99, startTime = 0\<rparr> \<and>
         it = always_continue \<and> e = mk_entry 9 9 9 1024 \<and> activeTuplets st = [])"
  proof
    assume fam: "doc = example_doc \<and> frame = \<lparr>startEntry = 9, endEntry = 99, startTime = 0\<rparr> \<and>
         it = always_continue \<and> e = mk_entry 9 9 9 1024 \<and> activeTuplets st = []"
    then obtain st' where "loopBody strict doc g li frame it e st = Continue (mk_entry 9 9 9 1024) st'"
      and "activeTuplets st' = []"
      by (simp add: model_defs example_defs Let_def)
    with body fam IH [of strict doc g li frame it "mk_entry 9 9 9 1024" st' y] show False
      by simp
  qed
qed

lemma cyclic_chain_never_returns:
  "iterateEntries strict example_doc (example_hold [13, 0, 0, 0]) 0 always_continue () = None"
proof (cases "iterateEntries strict example_doc (example_hold [13, 0, 0, 0]) 0 always_continue ()")
  case None
  then show ?thesis .
next
  case (Some y)
  then have "entryLoop strict example_doc (example_hold [13, 0, 0, 0]) 0
      \<lparr>startEntry = 9, endEntry = 99, startTime = 0\<rparr> always_continue (mk_entry 9 9 9 1024)
      start_state = Some y"
    by (simp add: iterateEntries_def example_defs Let_def Fraction_ctor_def NoteType_Whole_def
        rat_number_collapse)
  from cyclic_chain_loop [OF this] show ?thesis
    by (simp add: start_state_def)
qed

section \<open>The claims\<close>

text \<open>
  Claim C1. For every entry handed to the callback during the traversal of one layer, the
  actual duration in its \<^verbatim>\<open>EntryInfo\<close> is the nominal duration of the entry (its ticks
  as a fraction of a whole note) times the product of the ratios of the tuplets active at
  that call, the empty product being 1. With exactly two tuplets active it is the nominal
  duration times both ratios; and an entry at which two tuplets with ratios \<open>r1\<close> and
  \<open>r2\<close> start together, no other tuplet being active, is emitted with the actual duration
  nominal times \<open>r1\<close> times \<open>r2\<close>.
\<close>

theorem actualDuration_is_nominal_times_ratios:
  "(iterateEntries strict doc g layerIndex iterator cb0 = Some (res, st) \<longrightarrow>
      length (activeAtCall st) = length (emitted st) \<and>
      (\<forall>i<length (emitted st).
         actualDuration (emitted st ! i) =
           calcFraction (info_entry (emitted st ! i)) * prod_list (map ratio (activeAtCall st ! i)) \<and>
         (\<forall>s1 s2. activeAtCall st ! i = [s1, s2] \<longrightarrow>
            actualDuration (emitted st ! i) =
              calcFraction (info_entry (emitted st ! i)) * ratio s1 * ratio s2))) \<and>
   (entryLoop strict doc g layerIndex frame iterator e st0 = Some (res', st') \<and>
    activeTuplets st0 = [] \<and>
    getArray_TupletDef doc SCORE_PARTID (m_entnum e) = [t1, t2] \<and>
    calcRatio t1 = Inr r1 \<and> calcRatio t2 = Inr r2 \<longrightarrow>
      length (emitted st0) < length (emitted st') \<and>
      info_entry (emitted st' ! length (emitted st0)) = e \<and>
      actualDuration (emitted st' ! length (emitted st0)) = calcFraction e * r1 * r2)"
proof (intro conjI impI)
  assume run: "iterateEntries strict doc g layerIndex iterator cb0 = Some (res, st)"
  have inv: "list_all2 (\<lambda>info act. actualDuration info =
                    calcFraction (info_entry info) * prod_list (map ratio act))
                  (emitted st) (activeAtCall st)"
    using iterateEntries_cases [OF run]
  proof (elim disjE exE)
    assume "emitted st = [] \<and> activeAtCall st = []"
    then show ?thesis by simp
  next
    fix frame firstEntry
    assume "entryLoop strict doc g layerIndex frame iterator firstEntry
              \<lparr>activeTuplets = [],
               actualElapsedDuration =
                 sum_list (map (\<lambda>f. Fract (sint (startTime f)) NoteType_Whole)
                   (getArray_Frame doc (partId g) (frames g ! layerIndex))),
               cbstate = cb0, reported = [], emitted = [], activeAtCall = []\<rparr> = Some (res, st)"
    from entryLoop_keeps_product [OF this] show ?thesis by simp
  qed
  from inv show "length (activeAtCall st) = length (emitted st)"
    by (simp add: list_all2_lengthD)
  from inv show "\<forall>i<length (emitted st).
         actualDuration (emitted st ! i) =
           calcFraction (info_entry (emitted st ! i)) * prod_list (map ratio (activeAtCall st ! i)) \<and>
         (\<forall>s1 s2. activeAtCall st ! i = [s1, s2] \<longrightarrow>
            actualDuration (emitted st ! i) =
              calcFraction (info_entry (emitted st ! i)) * ratio s1 * ratio s2)"
    by (auto simp add: list_all2_conv_all_nth)
next
  assume h: "entryLoop strict doc g layerIndex frame iterator e st0 = Some (res', st') \<and>
    activeTuplets st0 = [] \<and>
    getArray_TupletDef doc SCORE_PARTID (m_entnum e) = [t1, t2] \<and>
    calcRatio t1 = Inr r1 \<and> calcRatio t2 = Inr r2"
  from h calcRatio_TupletState [of t1 r1] calcRatio_TupletState [of t2 r2]
  obtain s1 s2 where s: "TupletState_ctor t1 = Inr s1" "ratio s1 = r1"
      "TupletState_ctor t2 = Inr s2" "ratio s2 = r2"
    by blast
  with h have emp: "emplace_back_all (getArray_TupletDef doc SCORE_PARTID (m_entnum e))
                      (activeTuplets st0) = Inr [s1, s2]"
    by simp
  from h entryLoop_first_emitted [OF _ emp] obtain rest where
    em: "emitted st' = emitted st0 @ make_entryInfo g layerIndex e [s1, s2] (actualElapsedDuration st0) # rest"
    by blast
  from em show "length (emitted st0) < length (emitted st')" by simp
  from em show "info_entry (emitted st' ! length (emitted st0)) = e"
    by (simp add: make_entryInfo_def)
  from em s show "actualDuration (emitted st' ! length (emitted st0)) = calcFraction e * r1 * r2"
    by (simp add: entryInfo_product) (simp add: make_entryInfo_def)
qed

theorem actualDuration_is_nominal_times_ratios_witness:
  "\<exists>res st res' st'.
     iterateEntries False example_doc (example_hold [11, 12, 14, 15]) 0 always_continue () =
       Some (res, st) \<and>
     length (emitted st) = 2 \<and> length (activeAtCall st) = 2 \<and>
     map ratio (activeAtCall st ! 0) = [2 / 3, 4 / 5] \<and>
     calcFraction (info_entry (emitted st ! 0)) = 1 / 8 \<and>
     actualDuration (emitted st ! 0) = 1 / 8 * prod_list [2 / 3, 4 / 5] \<and>
     actualDuration (emitted st ! 0) = 1 / 15 \<and>
     entryLoop False example_doc (example_hold [11, 12, 14, 15]) 0
       \<lparr>startEntry = 7, endEntry = 8, startTime = 0\<rparr> always_continue (mk_entry 7 0 8 512)
       start_state = Some (res', st') \<and>
     activeTuplets start_state = [] \<and>
     getArray_TupletDef example_doc SCORE_PARTID (m_entnum (mk_entry 7 0 8 512)) = [triplet, quintuplet8] \<and>
     calcRatio triplet = Inr (2 / 3) \<and> calcRatio quintuplet8 = Inr (4 / 5) \<and>
     actualDuration (emitted st' ! length (emitted start_state)) =
       calcFraction (mk_entry 7 0 8 512) * (2 / 3) * (4 / 5)"
proof -
  from run_frame11 obtain res st where
    ev: "iterateEntries False example_doc (example_hold [11, 12, 14, 15]) 0 always_continue () =
           Some (res, st)"
    and facts: "length (emitted st) = 2" "actualDuration (emitted st ! 0) = 1 / 15"
      "calcFraction (info_entry (emitted st ! 0)) = 1 / 8"
      "map ratio (activeAtCall st ! 0) = [2 / 3, 4 / 5]"
    by auto
  from loop_frame11 obtain res' st' where
    ev': "entryLoop False example_doc (example_hold [11, 12, 14, 15]) 0
       \<lparr>startEntry = 7, endEntry = 8, startTime = 0\<rparr> always_continue (mk_entry 7 0 8 512)
       start_state = Some (res', st')"
    by auto
  have pre: "activeTuplets start_state = []"
    "getArray_TupletDef example_doc SCORE_PARTID (m_entnum (mk_entry 7 0 8 512)) = [triplet, quintuplet8]"
    "calcRatio triplet = Inr (2 / 3)" "calcRatio quintuplet8 = Inr (4 / 5)"
    by (simp_all add: example_defs SCORE_PARTID_def calcRatio_def Fraction_ctor_def
        Fract_of_int_quotient)
  note inst = actualDuration_is_nominal_times_ratios
    [where strict = False and doc = example_doc and g = "example_hold [11, 12, 14, 15]"
       and layerIndex = 0 and iterator = always_continue and ?cb0.0 = "()" and res = res and st = st
       and frame = "\<lparr>startEntry = 7, endEntry = 8, startTime = 0\<rparr>"
       and e = "mk_entry 7 0 8 512" and ?st0.0 = start_state and res' = res' and st' = st'
       and ?t1.0 = triplet and ?t2.0 = quintuplet8 and ?r1.0 = "2 / 3" and ?r2.0 = "4 / 5"]
  from inst ev facts have a: "length (activeAtCall st) = 2"
    "actualDuration (emitted st ! 0) = 1 / 8 * prod_list [2 / 3, 4 / 5]"
    by auto
  from inst ev' pre have b: "actualDuration (emitted st' ! length (emitted start_state)) =
       calcFraction (mk_entry 7 0 8 512) * (2 / 3) * (4 / 5)"
    by blast
  show ?thesis
    by (intro exI [of _ res] exI [of _ st] exI [of _ res'] exI [of _ st'] conjI)
       (fact ev facts pre a b ev')+
qed

text \<open>
  Claim C2. When the number of the current entry equals the end entry recorded in the frame
  and the tuplets keyed to the entry have been started, the traversal invokes the callback
  for the entry and returns at once (what the callback answered, so \<open>True\<close> when it asked to
  continue): exactly one more \<^verbatim>\<open>EntryInfo\<close> is emitted, the elapsed accumulator is left as
  it was before the entry, the tuplets that were active keep their remaining symbolic
  durations (the active list is the earlier one followed by the tuplets just started), and
  nothing is reported.
\<close>

theorem end_entry_stops_before_bookkeeping:
  assumes "emplace_back_all (getArray_TupletDef doc SCORE_PARTID (m_entnum e)) (activeTuplets st) = Inr act"
    and "m_entnum e = endEntry frame"
  shows "\<exists>st'. entryLoop strict doc g layerIndex frame iterator e st =
                 Some (Inr (fst (iterator (cbstate st)
                              (make_entryInfo g layerIndex e act (actualElapsedDuration st)))), st') \<and>
               emitted st' = emitted st @ [make_entryInfo g layerIndex e act (actualElapsedDuration st)] \<and>
               cbstate st' = snd (iterator (cbstate st)
                                    (make_entryInfo g layerIndex e act (actualElapsedDuration st))) \<and>
               actualElapsedDuration st' = actualElapsedDuration st \<and>
               (\<exists>new. activeTuplets st' = activeTuplets st @ new \<and>
                      list_all2 (\<lambda>t s. TupletState_ctor t = Inr s)
                        (getArray_TupletDef doc SCORE_PARTID (m_entnum e)) new) \<and>
               reported st' = reported st"
proof -
  from emplace_back_all_Inr [OF assms(1)] obtain new where
    new: "act = activeTuplets st @ new"
      "list_all2 (\<lambda>t s. TupletState_ctor t = Inr s)
         (getArray_TupletDef doc SCORE_PARTID (m_entnum e)) new"
    by blast
  have "loopBody strict doc g layerIndex frame iterator e st =
          Return (Inr (fst (iterator (cbstate st)
                              (make_entryInfo g layerIndex e act (actualElapsedDuration st)))))
            (st\<lparr>activeTuplets := act,
                 cbstate := snd (iterator (cbstate st)
                                    (make_entryInfo g layerIndex e act (actualElapsedDuration st))),
                 emitted := emitted st @ [make_entryInfo g layerIndex e act (actualElapsedDuration st)],
                 activeAtCall := activeAtCall st @ [act]\<rparr>)"
    using assms by (simp add: loopBody_def Let_def)
  from entryLoop_Return [OF this] new show ?thesis by simp
qed

theorem end_entry_stops_before_bookkeeping_witness:
  "emplace_back_all (getArray_TupletDef example_doc SCORE_PARTID (m_entnum (mk_entry 8 7 0 512)))
     (activeTuplets (start_state\<lparr>activeTuplets :=
        [\<lparr>remainingSymbolicDuration = 13 / 20, ratio = 2 / 3, tuplet = triplet\<rparr>,
         \<lparr>remainingSymbolicDuration = 13 / 24, ratio = 4 / 5, tuplet = quintuplet8\<rparr>],
        actualElapsedDuration := 1 / 15\<rparr>)) =
     Inr [\<lparr>remainingSymbolicDuration = 13 / 20, ratio = 2 / 3, tuplet = triplet\<rparr>,
          \<lparr>remainingSymbolicDuration = 13 / 24, ratio = 4 / 5, tuplet = quintuplet8\<rparr>] \<and>
   m_entnum (mk_entry 8 7 0 512) = endEntry \<lparr>startEntry = 7, endEntry = 8, startTime = 0\<rparr> \<and>
   (\<exists>st'. entryLoop False example_doc (example_hold [11, 12, 14, 15]) 0
            \<lparr>startEntry = 7, endEntry = 8, startTime = 0\<rparr> always_continue (mk_entry 8 7 0 512)
            (start_state\<lparr>activeTuplets :=
               [\<lparr>remainingSymbolicDuration = 13 / 20, ratio = 2 / 3, tuplet = triplet\<rparr>,
                \<lparr>remainingSymbolicDuration = 13 / 24, ratio = 4 / 5, tuplet = quintuplet8\<rparr>],
               actualElapsedDuration := 1 / 15\<rparr>) = Some (Inr True, st') \<and>
          length (emitted st') = 1 \<and>
          actualElapsedDuration st' = 1 / 15 \<and>
          activeTuplets st' =
            [\<lparr>remainingSymbolicDuration = 13 / 20, ratio = 2 / 3, tuplet = triplet\<rparr>,
             \<lparr>remainingSymbolicDuration = 13 / 24, ratio = 4 / 5, tuplet = quintuplet8\<rparr>] \<and>
          reported st' = [])"
proof -
  have h: "emplace_back_all (getArray_TupletDef example_doc SCORE_PARTID (m_entnum (mk_entry 8 7 0 512)))
     (activeTuplets (start_state\<lparr>activeTuplets :=
        [\<lparr>remainingSymbolicDuration = 13 / 20, ratio = 2 / 3, tuplet = triplet\<rparr>,
         \<lparr>remainingSymbolicDuration = 13 / 24, ratio = 4 / 5, tuplet = quintuplet8\<rparr>],
        actualElapsedDuration := 1 / 15\<rparr>)) =
     Inr [\<lparr>remainingSymbolicDuration = 13 / 20, ratio = 2 / 3, tuplet = triplet\<rparr>,
          \<lparr>remainingSymbolicDuration = 13 / 24, ratio = 4 / 5, tuplet = quintuplet8\<rparr>]"
    "m_entnum (mk_entry 8 7 0 512) = endEntry \<lparr>startEntry = 7, endEntry = 8, startTime = 0\<rparr>"
    by (simp_all add: example_defs SCORE_PARTID_def)
  from end_entry_stops_before_bookkeeping [OF h, of False "example_hold [11, 12, 14, 15]" 0 always_continue]
  obtain st' where "entryLoop False example_doc (example_hold [11, 12, 14, 15]) 0
            \<lparr>startEntry = 7, endEntry = 8, startTime = 0\<rparr> always_continue (mk_entry 8 7 0 512)
            (start_state\<lparr>activeTuplets :=
               [\<lparr>remainingSymbolicDuration = 13 / 20, ratio = 2 / 3, tuplet = triplet\<rparr>,
                \<lparr>remainingSymbolicDuration = 13 / 24, ratio = 4 / 5, tuplet = quintuplet8\<rparr>],
               actualElapsedDuration := 1 / 15\<rparr>) = Some (Inr True, st')"
      "length (emitted st') = 1" "actualElapsedDuration st' = 1 / 15"
      "activeTuplets st' =
            [\<lparr>remainingSymbolicDuration = 13 / 20, ratio = 2 / 3, tuplet = triplet\<rparr>,
             \<lparr>remainingSymbolicDuration = 13 / 24, ratio = 4 / 5, tuplet = quintuplet8\<rparr>]"
      "reported st' = []"
    by (auto simp add: example_defs SCORE_PARTID_def)
  with h show ?thesis by blast
qed

text \<open>
  Claim C3. Between two consecutive calls of the callback in any traversal of one layer, the
  elapsed duration advances by the actual duration of the earlier entry, every tuplet active
  at the earlier call is charged that actual duration divided by its ratio (the ratios are
  not 0, so the division is defined), and every tuplet whose remaining symbolic duration is
  then 0 or less is removed before the tuplets of the later entry are appended; by claim C1
  the later entry is scaled by the remaining tuplets only. Moreover, after an entry that is
  not the end entry, for which the callback asked to continue, with non-zero ratios and an
  existing next entry, the loop goes on at the next entry in exactly that state.
\<close>

theorem bookkeeping_between_entries:
  "(iterateEntries strict doc g layerIndex iterator cb0 = Some (res, st) \<and>
    Suc i < length (emitted st) \<longrightarrow>
      elapsedDuration (emitted st ! Suc i) =
        elapsedDuration (emitted st ! i) + actualDuration (emitted st ! i) \<and>
      (\<forall>t\<in>set (activeAtCall st ! i). ratio t \<noteq> 0) \<and>
      (\<exists>new.
         activeAtCall st ! Suc i =
           filter (\<lambda>t. \<not> remainingSymbolicDuration t \<le> 0)
             (map (\<lambda>t. t\<lparr>remainingSymbolicDuration :=
                            remainingSymbolicDuration t - actualDuration (emitted st ! i) / ratio t\<rparr>)
                (activeAtCall st ! i)) @ new \<and>
         list_all2 (\<lambda>t s. TupletState_ctor t = Inr s)
           (getArray_TupletDef doc SCORE_PARTID (m_entnum (info_entry (emitted st ! Suc i)))) new)) \<and>
   (emplace_back_all (getArray_TupletDef doc SCORE_PARTID (m_entnum e)) (activeTuplets st0) = Inr act \<and>
    fst (iterator (cbstate st0) (make_entryInfo g layerIndex e act (actualElapsedDuration st0))) \<and>
    m_entnum e \<noteq> endEntry frame \<and> (\<forall>t\<in>set act. ratio t \<noteq> 0) \<and>
    m_next e \<noteq> 0 \<and> getEntries doc (m_next e) = Some n \<longrightarrow>
      entryLoop strict doc g layerIndex frame iterator e st0 =
      entryLoop strict doc g layerIndex frame iterator n
        (st0\<lparr>activeTuplets :=
                filter (\<lambda>t. \<not> remainingSymbolicDuration t \<le> 0)
                  (map (\<lambda>t. t\<lparr>remainingSymbolicDuration := remainingSymbolicDuration t -
                     calcFraction e * prod_list (map ratio act) / ratio t\<rparr>) act),
              actualElapsedDuration :=
                actualElapsedDuration st0 + calcFraction e * prod_list (map ratio act),
              cbstate := snd (iterator (cbstate st0)
                               (make_entryInfo g layerIndex e act (actualElapsedDuration st0))),
              emitted := emitted st0 @ [make_entryInfo g layerIndex e act (actualElapsedDuration st0)],
              activeAtCall := activeAtCall st0 @ [act]\<rparr>))"
proof (intro conjI impI)
  assume h: "iterateEntries strict doc g layerIndex iterator cb0 = Some (res, st) \<and>
    Suc i < length (emitted st)"
  from iterateEntries_trace [of strict doc g layerIndex iterator cb0 res st] h
  have len: "length (activeAtCall st) = length (emitted st)"
    and suc: "successively (next_call doc) (zip (emitted st) (activeAtCall st))"
    by simp_all
  from h len have "Suc i < length (zip (emitted st) (activeAtCall st))" by simp
  from successively_nth [OF suc this] h len
  have nc: "next_call doc (emitted st ! i, activeAtCall st ! i)
              (emitted st ! Suc i, activeAtCall st ! Suc i)"
    by simp
  from nc show "elapsedDuration (emitted st ! Suc i) =
        elapsedDuration (emitted st ! i) + actualDuration (emitted st ! i)"
    by (simp add: next_call_def)
  from nc show "\<forall>t\<in>set (activeAtCall st ! i). ratio t \<noteq> 0"
    by (simp add: next_call_def)
  from nc show "\<exists>new.
         activeAtCall st ! Suc i =
           filter (\<lambda>t. \<not> remainingSymbolicDuration t \<le> 0)
             (map (\<lambda>t. t\<lparr>remainingSymbolicDuration :=
                            remainingSymbolicDuration t - actualDuration (emitted st ! i) / ratio t\<rparr>)
                (activeAtCall st ! i)) @ new \<and>
         list_all2 (\<lambda>t s. TupletState_ctor t = Inr s)
           (getArray_TupletDef doc SCORE_PARTID (m_entnum (info_entry (emitted st ! Suc i)))) new"
    by (simp add: next_call_def)
next
  assume h: "emplace_back_all (getArray_TupletDef doc SCORE_PARTID (m_entnum e)) (activeTuplets st0) = Inr act \<and>
    fst (iterator (cbstate st0) (make_entryInfo g layerIndex e act (actualElapsedDuration st0))) \<and>
    m_entnum e \<noteq> endEntry frame \<and> (\<forall>t\<in>set act. ratio t \<noteq> 0) \<and>
    m_next e \<noteq> 0 \<and> getEntries doc (m_next e) = Some n"
  then have nx: "getNext strict doc e (reported st0) = Inr (Some n, reported st0)"
    by (simp add: getNext_def)
  from h have "loopBody strict doc g layerIndex frame iterator e st0 =
      Continue n
        (st0\<lparr>activeTuplets :=
                filter (\<lambda>t. \<not> remainingSymbolicDuration t \<le> 0)
                  (map (\<lambda>t. t\<lparr>remainingSymbolicDuration := remainingSymbolicDuration t -
                     calcFraction e * prod_list (map ratio act) / ratio t\<rparr>) act),
              actualElapsedDuration :=
                actualElapsedDuration st0 + calcFraction e * prod_list (map ratio act),
              cbstate := snd (iterator (cbstate st0)
                               (make_entryInfo g layerIndex e act (actualElapsedDuration st0))),
              emitted := emitted st0 @ [make_entryInfo g layerIndex e act (actualElapsedDuration st0)],
              activeAtCall := activeAtCall st0 @ [act]\<rparr>)"
    by (simp add: loopBody_advance nx)
  then show "entryLoop strict doc g layerIndex frame iterator e st0 =
      entryLoop strict doc g layerIndex frame iterator n
        (st0\<lparr>activeTuplets :=
                filter (\<lambda>t. \<not> remainingSymbolicDuration t \<le> 0)
                  (map (\<lambda>t. t\<lparr>remainingSymbolicDuration := remainingSymbolicDuration t -
                     calcFraction e * prod_list (map ratio act) / ratio t\<rparr>) act),
              actualElapsedDuration :=
                actualElapsedDuration st0 + calcFraction e * prod_list (map ratio act),
              cbstate := snd (iterator (cbstate st0)
                               (make_entryInfo g layerIndex e act (actualElapsedDuration st0))),
              emitted := emitted st0 @ [make_entryInfo g layerIndex e act (actualElapsedDuration st0)],
              activeAtCall := activeAtCall st0 @ [act]\<rparr>)"
    by (rule entryLoop_Continue)
qed

theorem bookkeeping_between_entries_witness:
  "\<exists>res st res' st'.
     iterateEntries False example_doc (example_hold [7, 8, 9, 10]) 0 always_continue () = Some (res, st) \<and>
     Suc 2 < length (emitted st) \<and>
     elapsedDuration (emitted st ! 2) = 7 / 12 \<and> actualDuration (emitted st ! 2) = 1 / 6 \<and>
     elapsedDuration (emitted st ! Suc 2) =
       elapsedDuration (emitted st ! 2) + actualDuration (emitted st ! 2) \<and>
     activeAtCall st ! 2 = [\<lparr>remainingSymbolicDuration = 1 / 4, ratio = 2 / 3, tuplet = triplet\<rparr>] \<and>
     activeAtCall st ! Suc 2 = [] \<and>
     actualDuration (emitted st ! Suc 2) = 1 / 4 \<and>
     emplace_back_all (getArray_TupletDef example_doc SCORE_PARTID (m_entnum (mk_entry 3 2 4 1024)))
       (activeTuplets (start_state\<lparr>activeTuplets :=
           [\<lparr>remainingSymbolicDuration = 1 / 4, ratio = 2 / 3, tuplet = triplet\<rparr>],
           actualElapsedDuration := 7 / 12\<rparr>)) =
       Inr [\<lparr>remainingSymbolicDuration = 1 / 4, ratio = 2 / 3, tuplet = triplet\<rparr>] \<and>
     m_entnum (mk_entry 3 2 4 1024) \<noteq> endEntry \<lparr>startEntry = 1, endEntry = 4, startTime = 0\<rparr> \<and>
     m_next (mk_entry 3 2 4 1024) \<noteq> 0 \<and>
     getEntries example_doc (m_next (mk_entry 3 2 4 1024)) = Some (mk_entry 4 3 0 1024) \<and>
     entryLoop False example_doc (example_hold [7, 8, 9, 10]) 0
       \<lparr>startEntry = 1, endEntry = 4, startTime = 0\<rparr> always_continue (mk_entry 3 2 4 1024)
       (start_state\<lparr>activeTuplets :=
           [\<lparr>remainingSymbolicDuration = 1 / 4, ratio = 2 / 3, tuplet = triplet\<rparr>],
           actualElapsedDuration := 7 / 12\<rparr>) = Some (res', st') \<and>
     map elapsedDuration (emitted st') = [7 / 12, 3 / 4] \<and>
     map actualDuration (emitted st') = [1 / 6, 1 / 4] \<and>
     activeAtCall st' =
       [[\<lparr>remainingSymbolicDuration = 1 / 4, ratio = 2 / 3, tuplet = triplet\<rparr>], []]"
proof -
  from run_frame7 obtain res st where
    ev: "iterateEntries False example_doc (example_hold [7, 8, 9, 10]) 0 always_continue () = Some (res, st)"
    and len: "Suc 2 < length (emitted st)"
    and facts: "elapsedDuration (emitted st ! 2) = 7 / 12" "actualDuration (emitted st ! 2) = 1 / 6"
      "activeAtCall st ! 2 = [\<lparr>remainingSymbolicDuration = 1 / 4, ratio = 2 / 3, tuplet = triplet\<rparr>]"
      "activeAtCall st ! Suc 2 = []" "actualDuration (emitted st ! Suc 2) = 1 / 4"
    by (auto simp add: numeral_3_eq_3)
  note inst = bookkeeping_between_entries
    [where strict = False and doc = example_doc and g = "example_hold [7, 8, 9, 10]"
       and layerIndex = 0 and iterator = always_continue and ?cb0.0 = "()" and res = res and st = st
       and i = 2 and frame = "\<lparr>startEntry = 1, endEntry = 4, startTime = 0\<rparr>"
       and e = "mk_entry 3 2 4 1024" and n = "mk_entry 4 3 0 1024"
       and act = "[\<lparr>remainingSymbolicDuration = 1 / 4, ratio = 2 / 3, tuplet = triplet\<rparr>]"
       and ?st0.0 = "start_state\<lparr>activeTuplets :=
           [\<lparr>remainingSymbolicDuration = 1 / 4, ratio = 2 / 3, tuplet = triplet\<rparr>],
           actualElapsedDuration := 7 / 12\<rparr>"]
  from inst ev len have step: "elapsedDuration (emitted st ! Suc 2) =
       elapsedDuration (emitted st ! 2) + actualDuration (emitted st ! 2)"
    by blast
  have pre: "emplace_back_all (getArray_TupletDef example_doc SCORE_PARTID (m_entnum (mk_entry 3 2 4 1024)))
       (activeTuplets (start_state\<lparr>activeTuplets :=
           [\<lparr>remainingSymbolicDuration = 1 / 4, ratio = 2 / 3, tuplet = triplet\<rparr>],
           actualElapsedDuration := 7 / 12\<rparr>)) =
       Inr [\<lparr>remainingSymbolicDuration = 1 / 4, ratio = 2 / 3, tuplet = triplet\<rparr>]"
    "m_entnum (mk_entry 3 2 4 1024) \<noteq> endEntry \<lparr>startEntry = 1, endEntry = 4, startTime = 0\<rparr>"
    "m_next (mk_entry 3 2 4 1024) \<noteq> 0"
    "getEntries example_doc (m_next (mk_entry 3 2 4 1024)) = Some (mk_entry 4 3 0 1024)"
    by (simp_all add: example_defs SCORE_PARTID_def)
  have cont: "fst (always_continue (cbstate (start_state\<lparr>activeTuplets :=
           [\<lparr>remainingSymbolicDuration = 1 / 4, ratio = 2 / 3, tuplet = triplet\<rparr>],
           actualElapsedDuration := 7 / 12\<rparr>)) info)"
      "\<forall>t\<in>set [\<lparr>remainingSymbolicDuration = 1 / 4, ratio = 2 / 3, tuplet = triplet\<rparr>]. ratio t \<noteq> 0"
    for info
    by (simp_all add: always_continue_def)
  note eq = inst [THEN conjunct2, THEN mp, OF conjI [OF pre(1) conjI [OF cont(1) conjI [OF pre(2)
                conjI [OF cont(2) conjI [OF pre(3) pre(4)]]]]]]
  from eq have "\<exists>res' st'. entryLoop False example_doc (example_hold [7, 8, 9, 10]) 0
       \<lparr>startEntry = 1, endEntry = 4, startTime = 0\<rparr> always_continue (mk_entry 3 2 4 1024)
       (start_state\<lparr>activeTuplets :=
           [\<lparr>remainingSymbolicDuration = 1 / 4, ratio = 2 / 3, tuplet = triplet\<rparr>],
           actualElapsedDuration := 7 / 12\<rparr>) = Some (res', st') \<and>
     map elapsedDuration (emitted st') = [7 / 12, 3 / 4] \<and>
     map actualDuration (emitted st') = [1 / 6, 1 / 4] \<and>
     activeAtCall st' =
       [[\<lparr>remainingSymbolicDuration = 1 / 4, ratio = 2 / 3, tuplet = triplet\<rparr>], []]"
    by (simp add: model_defs example_defs Let_def entryLoop.simps Fract_of_int_quotient)
  then obtain res' st' where loop: "entryLoop False example_doc (example_hold [7, 8, 9, 10]) 0
       \<lparr>startEntry = 1, endEntry = 4, startTime = 0\<rparr> always_continue (mk_entry 3 2 4 1024)
       (start_state\<lparr>activeTuplets :=
           [\<lparr>remainingSymbolicDuration = 1 / 4, ratio = 2 / 3, tuplet = triplet\<rparr>],
           actualElapsedDuration := 7 / 12\<rparr>) = Some (res', st')"
     "map elapsedDuration (emitted st') = [7 / 12, 3 / 4]"
     "map actualDuration (emitted st') = [1 / 6, 1 / 4]"
     "activeAtCall st' =
       [[\<lparr>remainingSymbolicDuration = 1 / 4, ratio = 2 / 3, tuplet = triplet\<rparr>], []]"
    by auto
  show ?thesis
    by (intro exI [of _ res] exI [of _ st] exI [of _ res'] exI [of _ st'] conjI)
       (fact ev len facts step pre loop)+
qed

text \<open>
  Claim C4, as amended. Let an entry be emitted that is not the end entry of the frame, the
  callback ask to continue, and the ratios of the active tuplets be non-zero. If the next
  reference of the entry is 0, the traversal stops and returns \<open>True\<close> without reporting
  anything, in both modes. If the next reference is not 0 and does not resolve, the violation
  "next entry does not exist" is raised: the call fails with the integrity error in the
  strict mode, and in the default mode the violation is added to the sink and the call
  returns \<open>True\<close>. Whenever the chain of next references from the start entry of the layer
  ends within some number of entries (at a reference that is 0 or unresolved), the call
  returns.
\<close>

theorem chain_runs_out:
  "(emplace_back_all (getArray_TupletDef doc SCORE_PARTID (m_entnum e)) (activeTuplets st) = Inr act \<and>
    fst (iterator (cbstate st) (make_entryInfo g layerIndex e act (actualElapsedDuration st))) \<and>
    m_entnum e \<noteq> endEntry frame \<and> (\<forall>t\<in>set act. ratio t \<noteq> 0) \<longrightarrow>
      (m_next e = 0 \<longrightarrow>
         (\<exists>st'. entryLoop strict doc g layerIndex frame iterator e st = Some (Inr True, st') \<and>
                reported st' = reported st)) \<and>
      (m_next e \<noteq> 0 \<and> getEntries doc (m_next e) = None \<longrightarrow>
         (\<exists>st'. entryLoop True doc g layerIndex frame iterator e st =
                  Some (Inl (integrity_error (NextEntryMissing (m_entnum e) (m_next e))), st') \<and>
                reported st' = reported st) \<and>
         (\<exists>st'. entryLoop False doc g layerIndex frame iterator e st = Some (Inr True, st') \<and>
                reported st' = reported st @ [NextEntryMissing (m_entnum e) (m_next e)]))) \<and>
   ((\<forall>fr firstEntry.
       find (\<lambda>f. startEntry f \<noteq> 0) (getArray_Frame doc (partId g) (frames g ! layerIndex)) = Some fr \<and>
       getEntries doc (startEntry fr) = Some firstEntry \<longrightarrow> chain_ends_within k doc firstEntry) \<longrightarrow>
      (\<exists>r. iterateEntries strict doc g layerIndex iterator cb0 = Some r))"
proof (intro conjI impI)
  assume h: "emplace_back_all (getArray_TupletDef doc SCORE_PARTID (m_entnum e)) (activeTuplets st) = Inr act \<and>
    fst (iterator (cbstate st) (make_entryInfo g layerIndex e act (actualElapsedDuration st))) \<and>
    m_entnum e \<noteq> endEntry frame \<and> (\<forall>t\<in>set act. ratio t \<noteq> 0)"
    and z: "m_next e = 0"
  from h have "loopBody strict doc g layerIndex frame iterator e st =
      (case getNext strict doc e (reported st) of
        Inl err \<Rightarrow>
          Return (Inl err)
            (st\<lparr>activeTuplets :=
                   filter (\<lambda>t. \<not> remainingSymbolicDuration t \<le> 0)
                     (map (\<lambda>t. t\<lparr>remainingSymbolicDuration := remainingSymbolicDuration t -
                        calcFraction e * prod_list (map ratio act) / ratio t\<rparr>) act),
                 actualElapsedDuration := actualElapsedDuration st + calcFraction e * prod_list (map ratio act),
                 cbstate := snd (iterator (cbstate st) (make_entryInfo g layerIndex e act (actualElapsedDuration st))),
                 emitted := emitted st @ [make_entryInfo g layerIndex e act (actualElapsedDuration st)],
                 activeAtCall := activeAtCall st @ [act]\<rparr>)
      | Inr (None, sink) \<Rightarrow>
          Return (Inr True)
            (st\<lparr>activeTuplets :=
                   filter (\<lambda>t. \<not> remainingSymbolicDuration t \<le> 0)
                     (map (\<lambda>t. t\<lparr>remainingSymbolicDuration := remainingSymbolicDuration t -
                        calcFraction e * prod_list (map ratio act) / ratio t\<rparr>) act),
                 actualElapsedDuration := actualElapsedDuration st + calcFraction e * prod_list (map ratio act),
                 cbstate := snd (iterator (cbstate st) (make_entryInfo g layerIndex e act (actualElapsedDuration st))),
                 emitted := emitted st @ [make_entryInfo g layerIndex e act (actualElapsedDuration st)],
                 activeAtCall := activeAtCall st @ [act], reported := sink\<rparr>)
      | Inr (Some n, sink) \<Rightarrow>
          Continue n
            (st\<lparr>activeTuplets :=
                   filter (\<lambda>t. \<not> remainingSymbolicDuration t \<le> 0)
                     (map (\<lambda>t. t\<lparr>remainingSymbolicDuration := remainingSymbolicDuration t -
                        calcFraction e * prod_list (map ratio act) / ratio t\<rparr>) act),
                 actualElapsedDuration := actualElapsedDuration st + calcFraction e * prod_list (map ratio act),
                 cbstate := snd (iterator (cbstate st) (make_entryInfo g layerIndex e act (actualElapsedDuration st))),
                 emitted := emitted st @ [make_entryInfo g layerIndex e act (actualElapsedDuration st)],
                 activeAtCall := activeAtCall st @ [act], reported := sink\<rparr>))"
    by (intro loopBody_advance) simp_all
  with z obtain st' where "loopBody strict doc g layerIndex frame iterator e st = Return (Inr True) st'"
    "reported st' = reported st"
    by (simp add: getNext_cases)
  with entryLoop_Return [of strict doc g layerIndex frame iterator e st "Inr True" st']
  show "\<exists>st'. entryLoop strict doc g layerIndex frame iterator e st = Some (Inr True, st') \<and>
                reported st' = reported st"
    by blast
next
  assume h: "emplace_back_all (getArray_TupletDef doc SCORE_PARTID (m_entnum e)) (activeTuplets st) = Inr act \<and>
    fst (iterator (cbstate st) (make_entryInfo g layerIndex e act (actualElapsedDuration st))) \<and>
    m_entnum e \<noteq> endEntry frame \<and> (\<forall>t\<in>set act. ratio t \<noteq> 0)"
    and d: "m_next e \<noteq> 0 \<and> getEntries doc (m_next e) = None"
  from h have adv: "loopBody strict' doc g layerIndex frame iterator e st =
      (case getNext strict' doc e (reported st) of
        Inl err \<Rightarrow>
          Return (Inl err)
            (st\<lparr>activeTuplets :=
                   filter (\<lambda>t. \<not> remainingSymbolicDuration t \<le> 0)
                     (map (\<lambda>t. t\<lparr>remainingSymbolicDuration := remainingSymbolicDuration t -
                        calcFraction e * prod_list (map ratio act) / ratio t\<rparr>) act),
                 actualElapsedDuration := actualElapsedDuration st + calcFraction e * prod_list (map ratio act),
                 cbstate := snd (iterator (cbstate st) (make_entryInfo g layerIndex e act (actualElapsedDuration st))),
                 emitted := emitted st @ [make_entryInfo g layerIndex e act (actualElapsedDuration st)],
                 activeAtCall := activeAtCall st @ [act]\<rparr>)
      | Inr (None, sink) \<Rightarrow>
          Return (Inr True)
            (st\<lparr>activeTuplets :=
                   filter (\<lambda>t. \<not> remainingSymbolicDuration t \<le> 0)
                     (map (\<lambda>t. t\<lparr>remainingSymbolicDuration := remainingSymbolicDuration t -
                        calcFraction e * prod_list (map ratio act) / ratio t\<rparr>) act),
                 actualElapsedDuration := actualElapsedDuration st + calcFraction e * prod_list (map ratio act),
                 cbstate := snd (iterator (cbstate st) (make_entryInfo g layerIndex e act (actualElapsedDuration st))),
                 emitted := emitted st @ [make_entryInfo g layerIndex e act (actualElapsedDuration st)],
                 activeAtCall := activeAtCall st @ [act], reported := sink\<rparr>)
      | Inr (Some n, sink) \<Rightarrow>
          Continue n
            (st\<lparr>activeTuplets :=
                   filter (\<lambda>t. \<not> remainingSymbolicDuration t \<le> 0)
                     (map (\<lambda>t. t\<lparr>remainingSymbolicDuration := remainingSymbolicDuration t -
                        calcFraction e * prod_list (map ratio act) / ratio t\<rparr>) act),
                 actualElapsedDuration := actualElapsedDuration st + calcFraction e * prod_list (map ratio act),
                 cbstate := snd (iterator (cbstate st) (make_entryInfo g layerIndex e act (actualElapsedDuration st))),
                 emitted := emitted st @ [make_entryInfo g layerIndex e act (actualElapsedDuration st)],
                 activeAtCall := activeAtCall st @ [act], reported := sink\<rparr>))" for strict'
    by (intro loopBody_advance) simp_all
  from adv [of True] d obtain st1 where
    "loopBody True doc g layerIndex frame iterator e st =
       Return (Inl (integrity_error (NextEntryMissing (m_entnum e) (m_next e)))) st1"
    "reported st1 = reported st"
    by (simp add: getNext_cases)
  with entryLoop_Return [of True doc g layerIndex frame iterator e st _ st1]
  show "\<exists>st'. entryLoop True doc g layerIndex frame iterator e st =
                  Some (Inl (integrity_error (NextEntryMissing (m_entnum e) (m_next e))), st') \<and>
                reported st' = reported st"
    by blast
  from adv [of False] d obtain st2 where
    "loopBody False doc g layerIndex frame iterator e st = Return (Inr True) st2"
    "reported st2 = reported st @ [NextEntryMissing (m_entnum e) (m_next e)]"
    by (simp add: getNext_cases)
  with entryLoop_Return [of False doc g layerIndex frame iterator e st _ st2]
  show "\<exists>st'. entryLoop False doc g layerIndex frame iterator e st = Some (Inr True, st') \<and>
                reported st' = reported st @ [NextEntryMissing (m_entnum e) (m_next e)]"
    by blast
next
  assume "\<forall>fr firstEntry.
       find (\<lambda>f. startEntry f \<noteq> 0) (getArray_Frame doc (partId g) (frames g ! layerIndex)) = Some fr \<and>
       getEntries doc (startEntry fr) = Some firstEntry \<longrightarrow> chain_ends_within k doc firstEntry"
  then show "\<exists>r. iterateEntries strict doc g layerIndex iterator cb0 = Some r"
    by (rule iterateEntries_terminates)
qed


theorem chain_runs_out_witness:
  "emplace_back_all (getArray_TupletDef example_doc SCORE_PARTID (m_entnum (mk_entry 5 0 0 4096)))
     (activeTuplets start_state) = Inr [] \<and>
   m_entnum (mk_entry 5 0 0 4096) \<noteq> endEntry \<lparr>startEntry = 5, endEntry = 99, startTime = 0\<rparr> \<and>
   m_next (mk_entry 5 0 0 4096) = 0 \<and>
   (\<exists>st'. entryLoop True example_doc (example_hold [7, 8, 9, 10]) 2
             \<lparr>startEntry = 5, endEntry = 99, startTime = 0\<rparr> always_continue
             (mk_entry 5 0 0 4096) start_state = Some (Inr True, st') \<and>
          reported st' = reported start_state) \<and>
   emplace_back_all (getArray_TupletDef example_doc SCORE_PARTID (m_entnum (mk_entry 6 0 66 4096)))
     (activeTuplets start_state) = Inr [] \<and>
   m_entnum (mk_entry 6 0 66 4096) \<noteq> endEntry \<lparr>startEntry = 6, endEntry = 99, startTime = 0\<rparr> \<and>
   m_next (mk_entry 6 0 66 4096) \<noteq> 0 \<and>
   getEntries example_doc (m_next (mk_entry 6 0 66 4096)) = None \<and>
   (\<exists>st'. entryLoop True example_doc (example_hold [7, 8, 9, 10]) 3
             \<lparr>startEntry = 6, endEntry = 99, startTime = 0\<rparr> always_continue
             (mk_entry 6 0 66 4096) start_state =
             Some (Inl (integrity_error (NextEntryMissing 6 66)), st') \<and>
          reported st' = reported start_state) \<and>
   (\<exists>st'. entryLoop False example_doc (example_hold [7, 8, 9, 10]) 3
             \<lparr>startEntry = 6, endEntry = 99, startTime = 0\<rparr> always_continue
             (mk_entry 6 0 66 4096) start_state = Some (Inr True, st') \<and>
          reported st' = reported start_state @ [NextEntryMissing 6 66]) \<and>
   chain_ends_within 3 example_doc (mk_entry 1 0 2 1024) \<and>
   (\<exists>r. iterateEntries True example_doc (example_hold [7, 8, 9, 10]) 0 always_continue () = Some r)"
proof -
  note i5 = chain_runs_out
    [where doc = example_doc and e = "mk_entry 5 0 0 4096" and st = start_state and act = "[]"
       and iterator = always_continue and g = "example_hold [7, 8, 9, 10]" and layerIndex = 2
       and frame = "\<lparr>startEntry = 5, endEntry = 99, startTime = 0\<rparr>" and strict = True,
     THEN conjunct1]
  note i6 = chain_runs_out
    [where doc = example_doc and e = "mk_entry 6 0 66 4096" and st = start_state and act = "[]"
       and iterator = always_continue and g = "example_hold [7, 8, 9, 10]" and layerIndex = 3
       and frame = "\<lparr>startEntry = 6, endEntry = 99, startTime = 0\<rparr>" and strict = True,
     THEN conjunct1]
  note i7 = chain_runs_out
    [where doc = example_doc and g = "example_hold [7, 8, 9, 10]" and layerIndex = 0
       and k = 3 and strict = True and iterator = always_continue and ?cb0.0 = "()",
     THEN conjunct2]
  have p5: "emplace_back_all (getArray_TupletDef example_doc SCORE_PARTID (m_entnum (mk_entry 5 0 0 4096)))
     (activeTuplets start_state) = Inr []"
    "m_entnum (mk_entry 5 0 0 4096) \<noteq> endEntry \<lparr>startEntry = 5, endEntry = 99, startTime = 0\<rparr>"
    "m_next (mk_entry 5 0 0 4096) = 0"
    by (simp_all add: example_defs SCORE_PARTID_def)
  have p6: "emplace_back_all (getArray_TupletDef example_doc SCORE_PARTID (m_entnum (mk_entry 6 0 66 4096)))
     (activeTuplets start_state) = Inr []"
    "m_entnum (mk_entry 6 0 66 4096) \<noteq> endEntry \<lparr>startEntry = 6, endEntry = 99, startTime = 0\<rparr>"
    "m_next (mk_entry 6 0 66 4096) \<noteq> 0"
    "getEntries example_doc (m_next (mk_entry 6 0 66 4096)) = None"
    by (simp_all add: example_defs SCORE_PARTID_def)
  have c: "fst (always_continue s info)" for s info
    by (simp add: always_continue_def)
  from i5 p5 c have r5: "\<exists>st'. entryLoop True example_doc (example_hold [7, 8, 9, 10]) 2
             \<lparr>startEntry = 5, endEntry = 99, startTime = 0\<rparr> always_continue
             (mk_entry 5 0 0 4096) start_state = Some (Inr True, st') \<and>
          reported st' = reported start_state"
    by simp
  from i6 p6 c have r6: "(\<exists>st'. entryLoop True example_doc (example_hold [7, 8, 9, 10]) 3
             \<lparr>startEntry = 6, endEntry = 99, startTime = 0\<rparr> always_continue
             (mk_entry 6 0 66 4096) start_state =
             Some (Inl (integrity_error (NextEntryMissing 6 66)), st') \<and>
          reported st' = reported start_state)"
      "(\<exists>st'. entryLoop False example_doc (example_hold [7, 8, 9, 10]) 3
             \<lparr>startEntry = 6, endEntry = 99, startTime = 0\<rparr> always_continue
             (mk_entry 6 0 66 4096) start_state = Some (Inr True, st') \<and>
          reported st' = reported start_state @ [NextEntryMissing 6 66])"
    by (simp_all add: mk_entry_def)
  have ch: "chain_ends_within 3 example_doc (mk_entry 1 0 2 1024)"
    by (simp add: example_defs numeral_3_eq_3)
  have "\<forall>fr firstEntry.
       find (\<lambda>f. startEntry f \<noteq> 0)
         (getArray_Frame example_doc (partId (example_hold [7, 8, 9, 10]))
            (frames (example_hold [7, 8, 9, 10]) ! 0)) = Some fr \<and>
       getEntries example_doc (startEntry fr) = Some firstEntry \<longrightarrow>
       chain_ends_within 3 example_doc firstEntry"
    using ch by (auto simp add: example_defs)
  from i7 [THEN mp, OF this]
  have r7: "\<exists>r. iterateEntries True example_doc (example_hold [7, 8, 9, 10]) 0 always_continue () = Some r" .
  from p5 r5 p6 r6 ch r7 show ?thesis
    by (intro conjI)
qed

text \<open>
  The claim as stated asks for a reported violation whenever the chain runs out. In frame 9
  of the example the single entry 5 is not the end entry 99 and has the next reference 0: even
  in the strict mode the call returns \<open>True\<close> and reports nothing.
\<close>

theorem chain_runs_out_silently_counterexample:
  "m_next (mk_entry 5 0 0 4096) = 0 \<and>
   m_entnum (mk_entry 5 0 0 4096) \<noteq> endEntry \<lparr>startEntry = 5, endEntry = 99, startTime = 0\<rparr> \<and>
   iterateEntries True example_doc (example_hold [7, 8, 9, 10]) 2 always_continue () =
     Some (Inr True,
           \<lparr>activeTuplets = [], actualElapsedDuration = 1, cbstate = (), reported = [],
            emitted = [\<lparr>info_staff = 1, info_measure = 1, info_layerIndex = 2,
                        info_entry = mk_entry 5 0 0 4096, elapsedDuration = 0,
                        actualDuration = 1\<rparr>],
            activeAtCall = [[]]\<rparr>)"
  by (simp add: model_defs example_defs Let_def entryLoop.simps Fract_of_int_quotient)

text \<open>
  Claim C5, as amended. When the layer has a frame id and no incarnation of that frame
  carries a start entry, the traversal of the layer reports the consistency violation
  "points to non-existent frame" and never invokes the callback. In the strict mode the call
  fails with the integrity error. In the default mode the violation is added to the
  diagnostic sink and the call returns \<open>True\<close>.
\<close>

theorem no_start_entry_is_reported:
  assumes "layerIndex < length (frames g)" and "frames g ! layerIndex \<noteq> 0"
    and "\<forall>f\<in>set (getArray_Frame doc (partId g) (frames g ! layerIndex)). startEntry f = 0"
  shows "iterateEntries strict doc g layerIndex iterator cb0 =
           Some (if strict
                 then Inl (integrity_error
                        (NonExistentFrame (getStaff g) (getMeasure g) (frames g ! layerIndex)))
                 else Inr True,
                 \<lparr>activeTuplets = [], actualElapsedDuration = 0, cbstate = cb0,
                  reported = (if strict then []
                              else [NonExistentFrame (getStaff g) (getMeasure g) (frames g ! layerIndex)]),
                  emitted = [], activeAtCall = []\<rparr>)"
proof -
  from assms(3) have "find (\<lambda>f. startEntry f \<noteq> 0) (getArray_Frame doc (partId g) (frames g ! layerIndex)) = None"
    by (simp add: find_None_iff)
  with assms(1,2) show ?thesis
    by (simp add: iterateEntries_def Let_def MUSX_INTEGRITY_ERROR_def)
qed

theorem no_start_entry_is_reported_witness:
  "(1::nat) < length (frames (example_hold [7, 8, 9, 10])) \<and>
   frames (example_hold [7, 8, 9, 10]) ! 1 = 8 \<and>
   map startEntry (getArray_Frame example_doc (partId (example_hold [7, 8, 9, 10])) 8) = [0] \<and>
   iterateEntries True example_doc (example_hold [7, 8, 9, 10]) 1 always_continue () =
     Some (Inl (integrity_error (NonExistentFrame 1 1 8)),
           \<lparr>activeTuplets = [], actualElapsedDuration = 0, cbstate = (), reported = [],
            emitted = [], activeAtCall = []\<rparr>) \<and>
   iterateEntries False example_doc (example_hold [7, 8, 9, 10]) 1 always_continue () =
     Some (Inr True,
           \<lparr>activeTuplets = [], actualElapsedDuration = 0, cbstate = (),
            reported = [NonExistentFrame 1 1 8], emitted = [], activeAtCall = []\<rparr>)"
proof -
  have h: "(1::nat) < length (frames (example_hold [7, 8, 9, 10]))"
    "frames (example_hold [7, 8, 9, 10]) ! 1 \<noteq> 0"
    "\<forall>f\<in>set (getArray_Frame example_doc (partId (example_hold [7, 8, 9, 10]))
               (frames (example_hold [7, 8, 9, 10]) ! 1)). startEntry f = 0"
    by (simp_all add: example_defs)
  from no_start_entry_is_reported [OF h, of True always_continue "()"]
    no_start_entry_is_reported [OF h, of False always_continue "()"]
  show ?thesis
    by (simp add: example_defs getStaff_def getMeasure_def)
qed

text \<open>
  The claim as stated asks the explicit call to fail. In the default mode the call for layer
  1 of the example, whose frame 8 has no start entry, returns \<open>True\<close> after reporting.
\<close>

theorem explicit_iteration_returns_true_counterexample:
  "map startEntry (getArray_Frame example_doc (partId (example_hold [7, 8, 9, 10]))
      (frames (example_hold [7, 8, 9, 10]) ! 1)) = [0] \<and>
   iterateEntries False example_doc (example_hold [7, 8, 9, 10]) 1 always_continue () =
     Some (Inr True,
           \<lparr>activeTuplets = [], actualElapsedDuration = 0, cbstate = (),
            reported = [NonExistentFrame 1 1 8], emitted = [], activeAtCall = []\<rparr>)"
  by (simp add: model_defs example_defs Let_def)


text \<open>
  Claim C6. The elapsed duration of the first \<^verbatim>\<open>EntryInfo\<close> emitted for a layer is the
  sum, over all incarnations of the frame of that layer, of the start time of the incarnation
  as a fraction of a whole note. In the example the start time of one quarter stands on the
  second incarnation, which has no start entry, and the first entry is emitted with an
  elapsed duration of one quarter.
\<close>

theorem first_elapsed_is_sum_of_startTimes:
  assumes "iterateEntries strict doc g layerIndex iterator cb0 = Some (res, st)"
    and "emitted st \<noteq> []"
  shows "elapsedDuration (emitted st ! 0) =
           sum_list (map (\<lambda>f. Fract (sint (startTime f)) NoteType_Whole)
             (getArray_Frame doc (partId g) (frames g ! layerIndex)))"
  using iterateEntries_cases [OF assms(1)]
proof (elim disjE exE)
  assume "emitted st = [] \<and> activeAtCall st = []"
  with assms(2) show ?thesis by simp
next
  fix frame firstEntry
  assume run: "entryLoop strict doc g layerIndex frame iterator firstEntry
              \<lparr>activeTuplets = [],
               actualElapsedDuration =
                 sum_list (map (\<lambda>f. Fract (sint (startTime f)) NoteType_Whole)
                   (getArray_Frame doc (partId g) (frames g ! layerIndex))),
               cbstate = cb0, reported = [], emitted = [], activeAtCall = []\<rparr> = Some (res, st)"
  show ?thesis
  proof (cases "emplace_back_all (getArray_TupletDef doc SCORE_PARTID (m_entnum firstEntry)) []")
    case (Inl err)
    with entryLoop_emplace_fails [OF run] assms(2) show ?thesis by simp
  next
    case (Inr act)
    with entryLoop_first_emitted [OF run, of act] show ?thesis
      by (auto simp add: make_entryInfo_def)
  qed
qed

theorem first_elapsed_is_sum_of_startTimes_witness:
  "\<exists>res st.
     iterateEntries False example_doc (example_hold [7, 8, 9, 10]) 0 always_continue () = Some (res, st) \<and>
     emitted st \<noteq> [] \<and>
     map startTime (getArray_Frame example_doc (partId (example_hold [7, 8, 9, 10]))
        (frames (example_hold [7, 8, 9, 10]) ! 0)) = [0, 1024] \<and>
     elapsedDuration (emitted st ! 0) =
       sum_list (map (\<lambda>f. Fract (sint (startTime f)) NoteType_Whole)
         (getArray_Frame example_doc (partId (example_hold [7, 8, 9, 10]))
            (frames (example_hold [7, 8, 9, 10]) ! 0))) \<and>
     elapsedDuration (emitted st ! 0) = 1 / 4"
proof -
  have "\<exists>res st. iterateEntries False example_doc (example_hold [7, 8, 9, 10]) 0 always_continue () =
      Some (res, st) \<and> emitted st \<noteq> [] \<and> elapsedDuration (emitted st ! 0) = 1 / 4"
    by (simp add: model_defs example_defs Let_def entryLoop.simps Fract_of_int_quotient)
  then obtain res st where
    ev: "iterateEntries False example_doc (example_hold [7, 8, 9, 10]) 0 always_continue () = Some (res, st)"
    and ne: "emitted st \<noteq> []" and q: "elapsedDuration (emitted st ! 0) = 1 / 4"
    by auto
  have fr: "map startTime (getArray_Frame example_doc (partId (example_hold [7, 8, 9, 10]))
        (frames (example_hold [7, 8, 9, 10]) ! 0)) = [0, 1024]"
    by (simp add: example_defs)
  note s = first_elapsed_is_sum_of_startTimes [OF ev ne]
  show ?thesis
    by (intro exI [of _ res] exI [of _ st] conjI) (fact ev ne q fr s)+
qed

text \<open>
  Claim C7. For a frame holder with its four layer slots and every layer index of 4 or
  more, the traversal of one layer throws an invalid-argument error; the callback is not
  invoked (nothing is emitted and its state is unchanged) and nothing is reported.
\<close>

theorem layer_out_of_range_throws:
  "length (frames g) = MAX_LAYERS \<Longrightarrow> 4 \<le> layerIndex \<Longrightarrow>
   iterateEntries strict doc g layerIndex iterator cb0 =
     Some (Inl invalid_argument,
           \<lparr>activeTuplets = [], actualElapsedDuration = 0, cbstate = cb0, reported = [],
            emitted = [], activeAtCall = []\<rparr>)"
  by (simp add: iterateEntries_def MAX_LAYERS_def)

theorem layer_out_of_range_throws_witness:
  "length (frames (example_hold [7, 8, 9, 10])) = MAX_LAYERS \<and> (4::nat) \<le> 4 \<and>
   iterateEntries False example_doc (example_hold [7, 8, 9, 10]) 4 always_continue () =
     Some (Inl invalid_argument,
           \<lparr>activeTuplets = [], actualElapsedDuration = 0, cbstate = (), reported = [],
            emitted = [], activeAtCall = []\<rparr>)"
proof -
  have h: "length (frames (example_hold [7, 8, 9, 10])) = MAX_LAYERS"
    by (simp add: example_hold_def MAX_LAYERS_def)
  from h layer_out_of_range_throws [OF h, of 4 False example_doc always_continue "()"]
  show ?thesis by simp
qed

text \<open>
  Claim C8. The integrity check of a frame holder reports a consistency violation when both
  the clef id and the clef list id are set, and when neither is set: it throws in the strict
  mode and appends the violation to the sink in the default mode. When exactly one of the
  two is set it reports nothing and returns normally.
\<close>

theorem integrityCheck_clef_invariant:
  "(clefListId g \<noteq> 0 \<and> clefId g \<noteq> None \<longrightarrow>
      integrityCheck strict g sink =
        (if strict then Inl (integrity_error (BothClefAndClefList (cmper1 g) (cmper2 g)))
         else Inr (sink @ [BothClefAndClefList (cmper1 g) (cmper2 g)]))) \<and>
   (clefListId g = 0 \<and> clefId g = None \<longrightarrow>
      integrityCheck strict g sink =
        (if strict then Inl (integrity_error (NeitherClefNorClefList (cmper1 g) (cmper2 g)))
         else Inr (sink @ [NeitherClefNorClefList (cmper1 g) (cmper2 g)]))) \<and>
   ((clefListId g \<noteq> 0) \<noteq> (clefId g \<noteq> None) \<longrightarrow> integrityCheck strict g sink = Inr sink)"
  by (auto simp add: integrityCheck_def DetailsBase_integrityCheck_def MUSX_INTEGRITY_ERROR_def)

theorem integrityCheck_clef_invariant_witness:
  "integrityCheck True (example_hold [7, 0, 0, 0]\<lparr>clefListId := 123\<rparr>) [] =
     Inl (integrity_error (BothClefAndClefList 1 1)) \<and>
   integrityCheck False (example_hold [7, 0, 0, 0]\<lparr>clefListId := 123\<rparr>) [] =
     Inr [BothClefAndClefList 1 1] \<and>
   integrityCheck True (example_hold [7, 0, 0, 0]\<lparr>clefId := None\<rparr>) [] =
     Inl (integrity_error (NeitherClefNorClefList 1 1)) \<and>
   integrityCheck False (example_hold [7, 0, 0, 0]\<lparr>clefId := None\<rparr>) [] =
     Inr [NeitherClefNorClefList 1 1] \<and>
   integrityCheck True (example_hold [7, 0, 0, 0]) [] = Inr [] \<and>
   integrityCheck True (example_hold [7, 0, 0, 0]\<lparr>clefId := None, clefListId := 123\<rparr>) [] = Inr []"
  using integrityCheck_clef_invariant [of "example_hold [7, 0, 0, 0]\<lparr>clefListId := 123\<rparr>" True "[]"]
    integrityCheck_clef_invariant [of "example_hold [7, 0, 0, 0]\<lparr>clefListId := 123\<rparr>" False "[]"]
    integrityCheck_clef_invariant [of "example_hold [7, 0, 0, 0]\<lparr>clefId := None\<rparr>" True "[]"]
    integrityCheck_clef_invariant [of "example_hold [7, 0, 0, 0]\<lparr>clefId := None\<rparr>" False "[]"]
    integrityCheck_clef_invariant [of "example_hold [7, 0, 0, 0]" True "[]"]
    integrityCheck_clef_invariant [of "example_hold [7, 0, 0, 0]\<lparr>clefId := None, clefListId := 123\<rparr>" True "[]"]
  by (simp add: example_hold_def)

text \<open>
  Claim C9. For all values of the four fields of a tuplet definition, \<^verbatim>\<open>calcRatio()\<close>
  equals \<^verbatim>\<open>calcReferenceDuration() / calcDisplayDuration()\<close> exactly: the two computations
  give the same fraction, or both fail with an invalid-argument error. They give a fraction,
  the quotient of the reference duration by the non-zero display duration, when the 32-bit
  product of display number and display duration is not 0; otherwise the display duration is
  0 and both fail.
\<close>

theorem calcRatio_exact:
  "calcRatio t = reference_over_display t \<and>
   (sint (displayNumber t * displayDuration t) \<noteq> 0 \<longrightarrow>
      (\<exists>r d. calcReferenceDuration t = Inr r \<and> calcDisplayDuration t = Inr d \<and> d \<noteq> 0 \<and>
             calcRatio t = Inr (r / d))) \<and>
   (sint (displayNumber t * displayDuration t) = 0 \<longrightarrow>
      calcDisplayDuration t = Inr 0 \<and> calcRatio t = Inl invalid_argument)"
proof (intro conjI impI)
  show "calcRatio t = reference_over_display t"
    by (rule calcRatio_eq)
next
  assume nz: "sint (displayNumber t * displayDuration t) \<noteq> 0"
  have "reference_over_display t =
          Inr (Fract (sint (referenceNumber t * referenceDuration t)) NoteType_Whole /
               Fract (sint (displayNumber t * displayDuration t)) NoteType_Whole)"
    using nz by (simp add: reference_over_display_def calcReferenceDuration_def
        calcDisplayDuration_def Fraction_ctor_whole Fraction_div_def Fract_whole_eq_0)
  then show "\<exists>r d. calcReferenceDuration t = Inr r \<and> calcDisplayDuration t = Inr d \<and> d \<noteq> 0 \<and>
             calcRatio t = Inr (r / d)"
    using nz by (simp add: calcRatio_eq calcReferenceDuration_def calcDisplayDuration_def
        Fraction_ctor_whole Fract_whole_eq_0)
next
  assume z: "sint (displayNumber t * displayDuration t) = 0"
  then show "calcDisplayDuration t = Inr 0"
    by (simp add: calcDisplayDuration_def Fraction_ctor_whole Fract_whole_eq_0)
  from z show "calcRatio t = Inl invalid_argument"
    by (simp add: calcRatio_def Fraction_ctor_def)
qed

theorem calcRatio_exact_witness:
  "calcRatio quintuplet8 = Inr (4 / 5) \<and> reference_over_display quintuplet8 = Inr (4 / 5) \<and>
   calcReferenceDuration quintuplet8 = Inr (1 / 2) \<and> calcDisplayDuration quintuplet8 = Inr (5 / 8) \<and>
   calcRatio zero_display = Inl invalid_argument \<and>
   reference_over_display zero_display = Inl invalid_argument"
proof -
  have a: "calcReferenceDuration quintuplet8 = Inr (1 / 2)"
      "calcDisplayDuration quintuplet8 = Inr (5 / 8)"
      "calcRatio quintuplet8 = Inr (4 / 5)" "calcRatio zero_display = Inl invalid_argument"
    by (simp_all add: calcReferenceDuration_def calcDisplayDuration_def calcRatio_def
        quintuplet8_def zero_display_def Fraction_ctor_def NoteType_Whole_def Fract_of_int_quotient)
  with calcRatio_exact [of quintuplet8] calcRatio_exact [of zero_display] show ?thesis
    by simp
qed

text \<open>
  Claim C10. In every traversal of one layer, the tuplets active at a call of the callback
  are the tuplets that were active before the entry followed by one new \<^verbatim>\<open>TupletState\<close>
  for each tuplet definition keyed to the entry, in document order (at the first entry nothing
  was active before). Each new state holds its tuplet definition, a remaining symbolic
  duration equal to the display duration of the tuplet (the 32-bit product of display number
  and display duration over the ticks of a whole note), and a ratio equal to the reference
  duration divided by the display duration. When a further entry is emitted, these values are
  what the decay is applied to: each state is charged the actual duration of the entry divided
  by its ratio and dropped when nothing positive remains.
\<close>

theorem tuplet_state_at_start:
  "iterateEntries strict doc g layerIndex iterator cb0 = Some (res, st) \<and> i < length (emitted st) \<longrightarrow>
     (\<exists>old new.
        activeAtCall st ! i = old @ new \<and> (i = 0 \<longrightarrow> old = []) \<and>
        list_all2 (\<lambda>t s. tuplet s = t \<and>
                     calcDisplayDuration t = Inr (remainingSymbolicDuration s) \<and>
                     remainingSymbolicDuration s =
                       Fract (sint (displayNumber t * displayDuration t)) NoteType_Whole \<and>
                     reference_over_display t = Inr (ratio s))
          (getArray_TupletDef doc SCORE_PARTID (m_entnum (info_entry (emitted st ! i)))) new \<and>
        (Suc i < length (emitted st) \<longrightarrow>
           (\<exists>new'. activeAtCall st ! Suc i =
              filter (\<lambda>s. \<not> remainingSymbolicDuration s \<le> 0)
                (map (\<lambda>s. s\<lparr>remainingSymbolicDuration :=
                              remainingSymbolicDuration s - actualDuration (emitted st ! i) / ratio s\<rparr>)
                   (old @ new)) @ new')))"
proof
  assume h: "iterateEntries strict doc g layerIndex iterator cb0 = Some (res, st) \<and> i < length (emitted st)"
  then have run: "iterateEntries strict doc g layerIndex iterator cb0 = Some (res, st)"
    and i: "i < length (emitted st)"
    by simp_all
  from iterateEntries_trace [OF run]
  have len: "length (activeAtCall st) = length (emitted st)"
    and suc: "successively (next_call doc) (zip (emitted st) (activeAtCall st))"
    by simp_all
  have split: "\<exists>old new. activeAtCall st ! i = old @ new \<and> (i = 0 \<longrightarrow> old = []) \<and>
      list_all2 (\<lambda>t s. TupletState_ctor t = Inr s)
        (getArray_TupletDef doc SCORE_PARTID (m_entnum (info_entry (emitted st ! i)))) new"
  proof (cases i)
    case 0
    from i have "emitted st \<noteq> []" by auto
    from iterateEntries_first_call [OF run this] 0 show ?thesis
      by (intro exI [of _ "[]"] exI [of _ "activeAtCall st ! 0"]) simp
  next
    case (Suc j)
    with i len have "Suc j < length (zip (emitted st) (activeAtCall st))" by simp
    from successively_nth [OF suc this] i len Suc
    have "next_call doc (emitted st ! j, activeAtCall st ! j) (emitted st ! i, activeAtCall st ! i)"
      by simp
    with Suc show ?thesis
      by (auto simp add: next_call_def)
  qed
  then obtain old new where on: "activeAtCall st ! i = old @ new" "i = 0 \<longrightarrow> old = []"
    "list_all2 (\<lambda>t s. TupletState_ctor t = Inr s)
        (getArray_TupletDef doc SCORE_PARTID (m_entnum (info_entry (emitted st ! i)))) new"
    by blast
  have later: "Suc i < length (emitted st) \<longrightarrow>
           (\<exists>new'. activeAtCall st ! Suc i =
              filter (\<lambda>s. \<not> remainingSymbolicDuration s \<le> 0)
                (map (\<lambda>s. s\<lparr>remainingSymbolicDuration :=
                              remainingSymbolicDuration s - actualDuration (emitted st ! i) / ratio s\<rparr>)
                   (old @ new)) @ new')"
  proof
    assume si: "Suc i < length (emitted st)"
    with len have "Suc i < length (zip (emitted st) (activeAtCall st))" by simp
    from successively_nth [OF suc this] si len
    have "next_call doc (emitted st ! i, activeAtCall st ! i) (emitted st ! Suc i, activeAtCall st ! Suc i)"
      by simp
    with on(1) show "\<exists>new'. activeAtCall st ! Suc i =
              filter (\<lambda>s. \<not> remainingSymbolicDuration s \<le> 0)
                (map (\<lambda>s. s\<lparr>remainingSymbolicDuration :=
                              remainingSymbolicDuration s - actualDuration (emitted st ! i) / ratio s\<rparr>)
                   (old @ new)) @ new'"
      by (auto simp add: next_call_def)
  qed
  from on list_all2_ctor_initial [OF on(3)] later
  show "\<exists>old new.
        activeAtCall st ! i = old @ new \<and> (i = 0 \<longrightarrow> old = []) \<and>
        list_all2 (\<lambda>t s. tuplet s = t \<and>
                     calcDisplayDuration t = Inr (remainingSymbolicDuration s) \<and>
                     remainingSymbolicDuration s =
                       Fract (sint (displayNumber t * displayDuration t)) NoteType_Whole \<and>
                     reference_over_display t = Inr (ratio s))
          (getArray_TupletDef doc SCORE_PARTID (m_entnum (info_entry (emitted st ! i)))) new \<and>
        (Suc i < length (emitted st) \<longrightarrow>
           (\<exists>new'. activeAtCall st ! Suc i =
              filter (\<lambda>s. \<not> remainingSymbolicDuration s \<le> 0)
                (map (\<lambda>s. s\<lparr>remainingSymbolicDuration :=
                              remainingSymbolicDuration s - actualDuration (emitted st ! i) / ratio s\<rparr>)
                   (old @ new)) @ new'))"
    by blast
qed

theorem tuplet_state_at_start_witness:
  "\<exists>res st old new.
     iterateEntries False example_doc (example_hold [11, 12, 14, 15]) 0 always_continue () = Some (res, st) \<and>
     0 < length (emitted st) \<and> Suc 0 < length (emitted st) \<and>
     getArray_TupletDef example_doc SCORE_PARTID (m_entnum (info_entry (emitted st ! 0))) =
       [triplet, quintuplet8] \<and>
     calcDisplayDuration triplet = Inr (3 / 4) \<and> reference_over_display triplet = Inr (2 / 3) \<and>
     calcDisplayDuration quintuplet8 = Inr (5 / 8) \<and> reference_over_display quintuplet8 = Inr (4 / 5) \<and>
     activeAtCall st ! 0 = old @ new \<and> old = [] \<and>
     new = [\<lparr>remainingSymbolicDuration = 3 / 4, ratio = 2 / 3, tuplet = triplet\<rparr>,
            \<lparr>remainingSymbolicDuration = 5 / 8, ratio = 4 / 5, tuplet = quintuplet8\<rparr>] \<and>
     actualDuration (emitted st ! 0) = 1 / 15 \<and>
     activeAtCall st ! Suc 0 =
       [\<lparr>remainingSymbolicDuration = 13 / 20, ratio = 2 / 3, tuplet = triplet\<rparr>,
        \<lparr>remainingSymbolicDuration = 13 / 24, ratio = 4 / 5, tuplet = quintuplet8\<rparr>]"
proof -
  from run_frame11_states obtain res st where
    ev: "iterateEntries False example_doc (example_hold [11, 12, 14, 15]) 0 always_continue () = Some (res, st)"
    and len2: "length (emitted st) = 2"
    and facts: "info_entry (emitted st ! 0) = mk_entry 7 0 8 512"
      "actualDuration (emitted st ! 0) = 1 / 15"
      "activeAtCall st ! 0 =
        [\<lparr>remainingSymbolicDuration = 3 / 4, ratio = 2 / 3, tuplet = triplet\<rparr>,
         \<lparr>remainingSymbolicDuration = 5 / 8, ratio = 4 / 5, tuplet = quintuplet8\<rparr>]"
      "activeAtCall st ! Suc 0 =
        [\<lparr>remainingSymbolicDuration = 13 / 20, ratio = 2 / 3, tuplet = triplet\<rparr>,
         \<lparr>remainingSymbolicDuration = 13 / 24, ratio = 4 / 5, tuplet = quintuplet8\<rparr>]"
    by auto
  from len2 have len: "0 < length (emitted st)" "Suc 0 < length (emitted st)"
    by simp_all
  from tuplet_state_at_start [of False example_doc "example_hold [11, 12, 14, 15]" 0 always_continue
      "()" res st 0] ev len
  obtain old new where on: "activeAtCall st ! 0 = old @ new" "old = []"
    by blast
  with facts have new: "new = [\<lparr>remainingSymbolicDuration = 3 / 4, ratio = 2 / 3, tuplet = triplet\<rparr>,
            \<lparr>remainingSymbolicDuration = 5 / 8, ratio = 4 / 5, tuplet = quintuplet8\<rparr>]"
    by simp
  have vals: "calcDisplayDuration triplet = Inr (3 / 4)" "reference_over_display triplet = Inr (2 / 3)"
     "calcDisplayDuration quintuplet8 = Inr (5 / 8)" "reference_over_display quintuplet8 = Inr (4 / 5)"
    by (simp_all add: calcDisplayDuration_def reference_over_display_def calcReferenceDuration_def
        Fraction_ctor_def Fraction_div_def NoteType_Whole_def example_defs Fract_of_int_quotient)
  from facts(1) have tu: "getArray_TupletDef example_doc SCORE_PARTID (m_entnum (info_entry (emitted st ! 0))) =
       [triplet, quintuplet8]"
    by (simp add: example_doc_def example_tuplets_def mk_entry_def)
  show ?thesis
    by (intro exI [of _ res] exI [of _ st] exI [of _ old] exI [of _ new] conjI)
       (fact ev len facts on new vals tu)+
qed

end
